theory Spec2Isabelle
  imports Complex_Main "HOL-Library.Multiset"
begin

section \<open>Data model (package store)\<close>

text \<open>
  Conventions of the embedding.
  \<^item> A Go \<open>float64\<close> is modelled by the real number it denotes. Comparisons are exact in
    both worlds; rounding, infinities and NaN are outside the model (the columns of
    \<open>metrics_snapshot\<close> are SQL \<open>DECIMAL\<close> and \<open>INT\<close>, which hold neither an infinity nor
    a NaN, and the baseline and the seeds are finite).
  \<^item> A Go \<open>int\<close> is modelled by \<open>int\<close>; the values that occur stay far below 64 bits.
  \<^item> A \<open>time.Time\<close> is the number of nanoseconds since the zero instant
    (January 1, year 1, 00:00:00 UTC), so \<open>IsZero\<close> is equality with 0.
  \<^item> A Go \<open>string\<close> is a sequence of bytes, as \<open>string\<close> is here.
\<close>

type_synonym time = int

definition IsZero :: "time \<Rightarrow> bool" where
  "IsZero t = (t = 0)"

definition Minute :: int where
  "Minute = 60 * 1000000000"

definition Add :: "time \<Rightarrow> int \<Rightarrow> time" where
  "Add t d = t + d"

record Metrics =
  Revenue :: real
  Growth :: real
  Sentiment :: real
  Backlog :: int
  CreatedAt :: time

text \<open>The zero value \<open>Metrics{}\<close>.\<close>

definition zeroMetrics :: Metrics where
  "zeroMetrics = \<lparr>Revenue = 0, Growth = 0, Sentiment = 0, Backlog = 0, CreatedAt = 0\<rparr>"

section \<open>The environment: random source and wall clock\<close>

text \<open>
  \<open>rng.Float64()\<close> and \<open>time.Now()\<close> read the environment. The world carries, for each,
  the sequence of values still to be read; a read takes the first and leaves the rest.
\<close>

definition pop :: "(nat \<Rightarrow> 'a) \<Rightarrow> 'a \<times> (nat \<Rightarrow> 'a)" where
  "pop s = (s 0, \<lambda>n. s (Suc n))"

record env =
  rng :: "nat \<Rightarrow> real"
  clock :: "nat \<Rightarrow> time"

definition Float64 :: "'a env_scheme \<Rightarrow> real \<times> 'a env_scheme" where
  "Float64 w = (case pop (rng w) of (u, rest) \<Rightarrow> (u, w\<lparr>rng := rest\<rparr>))"

definition timeNow :: "'a env_scheme \<Rightarrow> time \<times> 'a env_scheme" where
  "timeNow w = (case pop (clock w) of (t, rest) \<Rightarrow> (t, w\<lparr>clock := rest\<rparr>))"

section \<open>Metric simulator (package api)\<close>

text \<open>\<open>func clamp(value, min, max float64) float64\<close>\<close>

definition clamp :: "real \<Rightarrow> real \<Rightarrow> real \<Rightarrow> real" where
  "clamp v lo hi = (if v < lo then lo else if v > hi then hi else v)"

text \<open>The conversion \<open>int(x)\<close> of a float64 truncates towards zero.\<close>

definition toInt :: "real \<Rightarrow> int" where
  "toInt x = (if 0 \<le> x then \<lfloor>x\<rfloor> else \<lceil>x\<rceil>)"

text \<open>
  \<open>func simulateMetrics(rng *rand.Rand, previous store.Metrics) store.Metrics\<close>: the
  fields of the composite literal are evaluated in order, so the four draws come first
  (revenue, growth, sentiment, backlog) and the clock is read last.
\<close>

definition simulateMetrics :: "Metrics \<Rightarrow> 'a env_scheme \<Rightarrow> Metrics \<times> 'a env_scheme" where
  "simulateMetrics previous w =
     (case Float64 w of (u1, w1) \<Rightarrow>
      case Float64 w1 of (u2, w2) \<Rightarrow>
      case Float64 w2 of (u3, w3) \<Rightarrow>
      case Float64 w3 of (u4, w4) \<Rightarrow>
      case timeNow w4 of (now, w5) \<Rightarrow>
        (\<lparr>Revenue = clamp (Revenue previous + (u1 - 0.35) * 0.12) 3.9 6.2,
          Growth = clamp (Growth previous + (u2 - 0.45) * 1.6) 10 28,
          Sentiment = clamp (Sentiment previous + (u3 - 0.5) * 2.4) 58 90,
          Backlog = toInt (clamp (of_int (Backlog previous) + (u4 - 0.4) * 6) 95 180),
          CreatedAt = now\<rparr>, w5))"

text \<open>
  \<open>simulateMetrics\<close> with the float64 arithmetic of lines 493 to 496 written out. \<open>fl\<close>
  rounds a real number to the nearest float64. A decimal literal that is no float64
  itself (0.35, 0.12, 3.9, 6.2, 0.45, 1.6, 2.4, 0.4) is rounded when it is converted;
  0.5, 6 and the integer bounds are float64 values. The conversion
  \<open>float64(previous.Backlog)\<close> rounds, and so does every operation. Go lets a compiler
  fuse \<open>z + x * y\<close> into one operation that rounds once; \<open>fused\<close> says whether it did.
  \<open>simulateMetrics\<close> above is this function with exact arithmetic, \<open>fl\<close> the identity.
\<close>

definition muladd :: "(real \<Rightarrow> real) \<Rightarrow> bool \<Rightarrow> real \<Rightarrow> real \<Rightarrow> real \<Rightarrow> real" where
  "muladd fl fused z x y = (if fused then fl (z + x * y) else fl (z + fl (x * y)))"

definition simulateMetricsRounded ::
  "(real \<Rightarrow> real) \<Rightarrow> bool \<Rightarrow> Metrics \<Rightarrow> 'a env_scheme \<Rightarrow> Metrics \<times> 'a env_scheme" where
  "simulateMetricsRounded fl fused previous w =
     (case Float64 w of (u1, w1) \<Rightarrow>
      case Float64 w1 of (u2, w2) \<Rightarrow>
      case Float64 w2 of (u3, w3) \<Rightarrow>
      case Float64 w3 of (u4, w4) \<Rightarrow>
      case timeNow w4 of (now, w5) \<Rightarrow>
        (\<lparr>Revenue = clamp (muladd fl fused (Revenue previous) (fl (u1 - fl 0.35)) (fl 0.12))
                      (fl 3.9) (fl 6.2),
          Growth = clamp (muladd fl fused (Growth previous) (fl (u2 - fl 0.45)) (fl 1.6)) 10 28,
          Sentiment = clamp (muladd fl fused (Sentiment previous) (fl (u3 - 0.5)) (fl 2.4)) 58 90,
          Backlog = toInt (clamp (muladd fl fused (fl (of_int (Backlog previous)))
                                    (fl (u4 - fl 0.4)) 6) 95 180),
          CreatedAt = now\<rparr>, w5))"


section \<open>The store (package store)\<close>

record Insight =
  ID :: int
  Title :: string
  Message :: string
  Source :: string
  InsightCreatedAt :: time

text \<open>The zero value \<open>Insight{}\<close>.\<close>

definition zeroInsight :: Insight where
  "zeroInsight = \<lparr>ID = 0, Title = [], Message = [], Source = [], InsightCreatedAt = 0\<rparr>"

text \<open>
  A Go \<open>error\<close> is either an error with a message (a driver, network or decoding
  error, or one made by \<open>errors.New\<close>) or the database engine's rejection of a negative
  \<open>LIMIT\<close> argument.
\<close>

datatype error = Err string | LimitRejected

text \<open>
  The world a handler runs in extends the environment by the two tables (rows in
  insertion order), the database server's clock (the column default
  \<open>CURRENT_TIMESTAMP\<close> of \<open>insights.created_at\<close>), the outcome the environment decides
  for each statement sent to the database (\<open>None\<close>: executed, \<open>Some e\<close>: failed with
  \<open>e\<close>), and the lines written by \<open>log.Printf\<close> (format and argument).
  Storage is idealised: a row is read back as it was written.
\<close>

record world = env +
  metrics_snapshot :: "Metrics list"
  insights :: "Insight list"
  dbclock :: "nat \<Rightarrow> time"
  faults :: "nat \<Rightarrow> error option"
  logs :: "(string \<times> error) list"

definition dbCall :: "world \<Rightarrow> error option \<times> world" where
  "dbCall w = (case pop (faults w) of (f, rest) \<Rightarrow> (f, w\<lparr>faults := rest\<rparr>))"

definition logPrintf :: "string \<Rightarrow> error \<Rightarrow> world \<Rightarrow> world" where
  "logPrintf format e w = w\<lparr>logs := logs w @ [(format, e)]\<rparr>"

text \<open>
  \<open>ORDER BY created_at DESC\<close>: the rows by descending \<open>created_at\<close>; among equal
  timestamps the row inserted later comes first (SQL leaves that order open).
\<close>

definition orderByCreatedAtDesc :: "Metrics list \<Rightarrow> Metrics list" where
  "orderByCreatedAtDesc rows = rev (sort_key CreatedAt rows)"

definition orderInsightsDesc :: "Insight list \<Rightarrow> Insight list" where
  "orderInsightsDesc rows = rev (sort_key InsightCreatedAt rows)"

text \<open>\<open>LIMIT ?\<close>: the first \<open>n\<close> rows; the engine rejects a negative argument.\<close>

definition limitRows :: "int \<Rightarrow> 'a list \<Rightarrow> error + 'a list" where
  "limitRows n rows = (if n < 0 then Inl LimitRejected else Inr (take (nat n) rows))"

text \<open>
  \<open>func (s *Store) LatestMetrics(ctx) (Metrics, error)\<close>. An empty result is
  \<open>sql.ErrNoRows\<close>, answered by \<open>Metrics{}, nil\<close>. Next to an error the model returns the
  zero value; every caller discards the snapshot when the error is not nil.
\<close>

definition LatestMetrics :: "world \<Rightarrow> (Metrics \<times> error option) \<times> world" where
  "LatestMetrics w =
     (case dbCall w of
        (Some e, w1) \<Rightarrow> ((zeroMetrics, Some e), w1)
      | (None, w1) \<Rightarrow>
          (case orderByCreatedAtDesc (metrics_snapshot w1) of
             [] \<Rightarrow> ((zeroMetrics, None), w1)
           | metrics # _ \<Rightarrow> ((metrics, None), w1)))"

definition InsertMetricsAt :: "Metrics \<Rightarrow> world \<Rightarrow> error option \<times> world" where
  "InsertMetricsAt metrics w =
     (case dbCall w of
        (Some e, w1) \<Rightarrow> (Some e, w1)
      | (None, w1) \<Rightarrow> (None, w1\<lparr>metrics_snapshot := metrics_snapshot w1 @ [metrics]\<rparr>))"

definition InsertMetrics :: "Metrics \<Rightarrow> world \<Rightarrow> error option \<times> world" where
  "InsertMetrics metrics w = InsertMetricsAt metrics w"

text \<open>
  The last loop of \<open>Trend\<close>, which reverses the slice in place:
  \<open>for i, j := 0, len(points)-1; i < j; i, j = i+1, j-1 { points[i], points[j] = points[j], points[i] }\<close>.
  From \<open>0\<close> and \<open>len(points)-1\<close> both indices stay within the slice.
\<close>

function reverseInPlace :: "int \<Rightarrow> int \<Rightarrow> 'a list \<Rightarrow> 'a list" where
  "reverseInPlace i j points =
     (if i < j then
        reverseInPlace (i + 1) (j - 1)
          (points[nat i := points ! nat j, nat j := points ! nat i])
      else points)"
  by pat_completeness auto
termination
  by (relation "measure (\<lambda>(i, j, points). nat (j - i))") auto

declare reverseInPlace.simps [simp del]

text \<open>
  \<open>func (s *Store) Trend(ctx, limit int) ([]Metrics, error)\<close>: the rows of the query are
  appended to \<open>points\<close> in the order they arrive and the slice is then reversed.
\<close>

definition Trend :: "int \<Rightarrow> world \<Rightarrow> (Metrics list \<times> error option) \<times> world" where
  "Trend limit w =
     (case dbCall w of
        (Some e, w1) \<Rightarrow> (([], Some e), w1)
      | (None, w1) \<Rightarrow>
          (case limitRows limit (orderByCreatedAtDesc (metrics_snapshot w1)) of
             Inl e \<Rightarrow> (([], Some e), w1)
           | Inr points \<Rightarrow>
               ((reverseInPlace 0 (int (length points) - 1) points, None), w1)))"

definition LatestInsights :: "int \<Rightarrow> world \<Rightarrow> (Insight list \<times> error option) \<times> world" where
  "LatestInsights limit w =
     (case dbCall w of
        (Some e, w1) \<Rightarrow> (([], Some e), w1)
      | (None, w1) \<Rightarrow>
          (case limitRows limit (orderInsightsDesc (insights w1)) of
             Inl e \<Rightarrow> (([], Some e), w1)
           | Inr items \<Rightarrow> ((items, None), w1)))"

text \<open>
  \<open>func (s *Store) InsertInsight(ctx, insight Insight) (Insight, error)\<close>: the row gets
  the next \<open>AUTO_INCREMENT\<close> id and the server's timestamp; the value returned carries
  that id and the application's \<open>time.Now()\<close>. The driver's \<open>LastInsertId\<close> returns no
  error.
\<close>

definition InsertInsight :: "Insight \<Rightarrow> world \<Rightarrow> (Insight \<times> error option) \<times> world" where
  "InsertInsight insight w =
     (case dbCall w of
        (Some e, w1) \<Rightarrow> ((zeroInsight, Some e), w1)
      | (None, w1) \<Rightarrow>
          (case pop (dbclock w1) of (stamp, rest) \<Rightarrow>
           let ident = int (length (insights w1)) + 1;
               row = \<lparr>ID = ident, Title = Title insight, Message = Message insight,
                      Source = Source insight, InsightCreatedAt = stamp\<rparr>;
               w2 = w1\<lparr>insights := insights w1 @ [row], dbclock := rest\<rparr>
           in (case timeNow w2 of (now, w3) \<Rightarrow>
                 ((insight\<lparr>ID := ident, InsightCreatedAt := now\<rparr>, None), w3))))"

section \<open>String literals of package api\<close>

text \<open>
  The titles and messages are Chinese text; each constant holds the UTF-8 bytes of one
  literal of the source. \<open>seedInsightTitle\<close> and \<open>seedInsightMessage\<close> are the literals of
  \<open>handleLatestInsights\<close>, \<open>advisorTitle\<close> that of \<open>StartSimulation\<close>; the title and
  message pairs are the literals of \<open>buildMetricInsight\<close> in the order of its cases; the
  words and sentence parts are the literals of \<open>buildAutoInsight\<close> in source order.
\<close>

definition seedInsightTitle :: string where
  "seedInsightTitle =
     [CHR 0xE9, CHR 0xAB, CHR 0x98, CHR 0xE7, CHR 0xAE, CHR 0xA1, CHR 0xE7, CHR 0xAE,
     CHR 0x80, CHR 0xE6, CHR 0x8A, CHR 0xA5]"

definition seedInsightMessage :: string where
  "seedInsightMessage =
     [CHR 0xE5, CHR 0x85, CHR 0xA8, CHR 0xE7, CHR 0x90, CHR 0x83, CHR 0xE8, CHR 0xA1,
     CHR 0xA8, CHR 0xE7, CHR 0x8E, CHR 0xB0, CHR 0xE9, CHR 0xAB, CHR 0x98, CHR 0xE4,
     CHR 0xBA, CHR 0x8E, CHR 0xE8, CHR 0xAE, CHR 0xA1, CHR 0xE5, CHR 0x88, CHR 0x92,
     CHR 0xEF, CHR 0xBC, CHR 0x8C, CHR 0xE7, CHR 0xBB, CHR 0xA7, CHR 0xE7, CHR 0xBB,
     CHR 0xAD, CHR 0xE5, CHR 0xB0, CHR 0x86, CHR 0xE5, CHR 0xB8, CHR 0x82, CHR 0xE5,
     CHR 0x9C, CHR 0xBA, CHR 0xE6, CHR 0x8A, CHR 0x95, CHR 0xE5, CHR 0x85, CHR 0xA5,
     CHR 0xE5, CHR 0xAF, CHR 0xB9, CHR 0xE9, CHR 0xBD, CHR 0x90, CHR 0xE9, CHR 0xAB,
     CHR 0x98, CHR 0xE5, CHR 0x8A, CHR 0xA8, CHR 0xE8, CHR 0x83, CHR 0xBD, CHR 0xE5,
     CHR 0x8C, CHR 0xBA, CHR 0xE5, CHR 0x9F, CHR 0x9F, CHR 0xE3, CHR 0x80, CHR 0x82]"

definition advisorTitle :: string where
  "advisorTitle =
     ''AI '' @ [CHR 0xE6, CHR 0x88, CHR 0x98, CHR 0xE7, CHR 0x95, CHR 0xA5, CHR 0xE9,
     CHR 0xA1, CHR 0xBE, CHR 0xE9, CHR 0x97, CHR 0xAE]"

definition revenueTitle :: string where
  "revenueTitle =
     [CHR 0xE5, CHR 0x85, CHR 0xA8, CHR 0xE7, CHR 0x90, CHR 0x83, CHR 0xE8, CHR 0x90,
     CHR 0xA5, CHR 0xE6, CHR 0x94, CHR 0xB6, CHR 0xE8, CHR 0x81, CHR 0x9A, CHR 0xE7,
     CHR 0x84, CHR 0xA6]"

definition revenueMessage :: string where
  "revenueMessage =
     [CHR 0xE8, CHR 0x90, CHR 0xA5, CHR 0xE6, CHR 0x94, CHR 0xB6, CHR 0xE5, CHR 0xA2,
     CHR 0x9E, CHR 0xE9, CHR 0x80, CHR 0x9F, CHR 0xE7, CHR 0xBB, CHR 0xB4, CHR 0xE6,
     CHR 0x8C, CHR 0x81, CHR 0xE5, CHR 0x9C, CHR 0xA8, CHR 0xE5, CHR 0xBD, CHR 0x93,
     CHR 0xE5, CHR 0x89, CHR 0x8D, CHR 0xE9, CHR 0xAB, CHR 0x98, CHR 0xE4, CHR 0xBD,
     CHR 0x8D, CHR 0xEF, CHR 0xBC, CHR 0x8C, CHR 0xE5, CHR 0xBB, CHR 0xBA, CHR 0xE8,
     CHR 0xAE, CHR 0xAE, CHR 0xE6, CHR 0xA0, CHR 0xB8, CHR 0xE5, CHR 0xBF, CHR 0x83,
     CHR 0xE5, CHR 0x8C, CHR 0xBA, CHR 0xE5, CHR 0x9F, CHR 0x9F, CHR 0xE4, CHR 0xBF,
     CHR 0x9D, CHR 0xE6, CHR 0x8C, CHR 0x81, CHR 0xE9, CHR 0xAB, CHR 0x98, CHR 0xE7,
     CHR 0xAB, CHR 0xAF, CHR 0xE5, CHR 0xAE, CHR 0x9A, CHR 0xE4, CHR 0xBB, CHR 0xB7,
     CHR 0xEF, CHR 0xBC, CHR 0x8C, CHR 0xE6, CHR 0x8B, CHR 0x89, CHR 0xE7, CHR 0xBE,
     CHR 0x8E, CHR 0xE7, CHR 0x94, CHR 0xA8, CHR 0xE7, CHR 0xBB, CHR 0x84, CHR 0xE5,
     CHR 0x90, CHR 0x88, CHR 0xE5, CHR 0x8C, CHR 0x85, CHR 0xE7, CHR 0xA8, CHR 0xB3,
     CHR 0xE4, CHR 0xBD, CHR 0x8F, CHR 0xE4, CHR 0xBB, CHR 0xBD, CHR 0xE9, CHR 0xA2,
     CHR 0x9D, CHR 0xE3, CHR 0x80, CHR 0x82]"

definition growthTitle :: string where
  "growthTitle =
     [CHR 0xE7, CHR 0x94, CHR 0xA8, CHR 0xE6, CHR 0x88, CHR 0xB7, CHR 0xE5, CHR 0xA2,
     CHR 0x9E, CHR 0xE9, CHR 0x95, CHR 0xBF, CHR 0xE8, CHR 0x81, CHR 0x9A, CHR 0xE7,
     CHR 0x84, CHR 0xA6]"

definition growthMessage :: string where
  "growthMessage =
     [CHR 0xE7, CHR 0x94, CHR 0xA8, CHR 0xE6, CHR 0x88, CHR 0xB7, CHR 0xE5, CHR 0xA2,
     CHR 0x9E, CHR 0xE9, CHR 0x95, CHR 0xBF, CHR 0xE4, CHR 0xBF, CHR 0x9D, CHR 0xE6,
     CHR 0x8C, CHR 0x81, CHR 0xE7, CHR 0xA8, CHR 0xB3, CHR 0xE5, CHR 0xAE, CHR 0x9A,
     CHR 0xEF, CHR 0xBC, CHR 0x8C, CHR 0xE5, CHR 0xBB, CHR 0xBA, CHR 0xE8, CHR 0xAE,
     CHR 0xAE, CHR 0xE5, CHR 0xB0, CHR 0x86, CHR 0xE8, CHR 0x8E, CHR 0xB7, CHR 0xE5,
     CHR 0xAE, CHR 0xA2, CHR 0xE9, CHR 0xA2, CHR 0x84, CHR 0xE7, CHR 0xAE, CHR 0x97,
     CHR 0xE5, CHR 0x80, CHR 0xBE, CHR 0xE5, CHR 0x90, CHR 0x91, CHR 0xE4, CHR 0xBA,
     CHR 0x9A, CHR 0xE5, CHR 0xA4, CHR 0xAA, CHR 0xEF, CHR 0xBC, CHR 0x8C, CHR 0xE5,
     CHR 0xB9, CHR 0xB6, CHR 0xE5, CHR 0x9C, CHR 0xA8, CHR 0xE6, CHR 0x88, CHR 0x90,
     CHR 0xE7, CHR 0x86, CHR 0x9F, CHR 0xE5, CHR 0xB8, CHR 0x82, CHR 0xE5, CHR 0x9C,
     CHR 0xBA, CHR 0xE5, CHR 0x8A, CHR 0xA0, CHR 0xE5, CHR 0x80, CHR 0x8D, CHR 0xE6,
     CHR 0x8A, CHR 0x95, CHR 0xE5, CHR 0x85, CHR 0xA5, CHR 0xE6, CHR 0x8E, CHR 0xA8,
     CHR 0xE8, CHR 0x8D, CHR 0x90, CHR 0xE8, CHR 0xA3, CHR 0x82, CHR 0xE5, CHR 0x8F,
     CHR 0x98, CHR 0xE3, CHR 0x80, CHR 0x82]"

definition sentimentTitle :: string where
  "sentimentTitle =
     [CHR 0xE6, CHR 0x83, CHR 0x85, CHR 0xE7, CHR 0xBB, CHR 0xAA, CHR 0xE6, CHR 0x8C,
     CHR 0x87, CHR 0xE6, CHR 0x95, CHR 0xB0, CHR 0xE8, CHR 0x81, CHR 0x9A, CHR 0xE7,
     CHR 0x84, CHR 0xA6]"

definition sentimentMessage :: string where
  "sentimentMessage =
     [CHR 0xE6, CHR 0x83, CHR 0x85, CHR 0xE7, CHR 0xBB, CHR 0xAA, CHR 0xE6, CHR 0x8C,
     CHR 0x87, CHR 0xE6, CHR 0x95, CHR 0xB0, CHR 0xE7, CHR 0xA8, CHR 0xB3, CHR 0xE5,
     CHR 0xAE, CHR 0x9A, CHR 0xE5, CHR 0x90, CHR 0x91, CHR 0xE5, CHR 0xA5, CHR 0xBD,
     CHR 0xEF, CHR 0xBC, CHR 0x8C] @ ''EMEA '' @ [CHR 0xE9, CHR 0x9C, CHR 0x80, CHR 0xE6,
     CHR 0x8F, CHR 0x90, CHR 0xE5, CHR 0x89, CHR 0x8D, CHR 0xE5, CHR 0xB8, CHR 0x83,
     CHR 0xE5, CHR 0xB1, CHR 0x80, CHR 0xE5, CHR 0x85, CHR 0xAC, CHR 0xE5, CHR 0x85,
     CHR 0xB3, CHR 0xE4, CHR 0xBB, CHR 0xA5, CHR 0xE5, CHR 0x86, CHR 0xB2, CHR 0xE5,
     CHR 0x88, CHR 0xBA] @ '' 75% '' @ [CHR 0xE6, CHR 0xAD, CHR 0xA3, CHR 0xE9, CHR 0x9D,
     CHR 0xA2, CHR 0xE9, CHR 0x98, CHR 0x88, CHR 0xE5, CHR 0x80, CHR 0xBC, CHR 0xE3,
     CHR 0x80, CHR 0x82]"

definition backlogTitle :: string where
  "backlogTitle =
     [CHR 0xE6, CHR 0x9C, CHR 0xAA, CHR 0xE4, CHR 0xBA, CHR 0xA4, CHR 0xE4, CHR 0xBB,
     CHR 0x98, CHR 0xE8, CHR 0xAE, CHR 0xA2, CHR 0xE5, CHR 0x8D, CHR 0x95, CHR 0xE8,
     CHR 0x81, CHR 0x9A, CHR 0xE7, CHR 0x84, CHR 0xA6]"

definition backlogMessage :: string where
  "backlogMessage =
     [CHR 0xE8, CHR 0xAE, CHR 0xA2, CHR 0xE5, CHR 0x8D, CHR 0x95, CHR 0xE7, CHR 0xA7,
     CHR 0xAF, CHR 0xE5, CHR 0x8E, CHR 0x8B, CHR 0xE4, CHR 0xBB, CHR 0x8D, CHR 0xE9,
     CHR 0x9C, CHR 0x80, CHR 0xE5, CHR 0x85, CHR 0xB3, CHR 0xE6, CHR 0xB3, CHR 0xA8,
     CHR 0xEF, CHR 0xBC, CHR 0x8C, CHR 0xE5, CHR 0xBB, CHR 0xBA, CHR 0xE8, CHR 0xAE,
     CHR 0xAE, CHR 0xE6, CHR 0x8F, CHR 0x90, CHR 0xE5, CHR 0x8D, CHR 0x87, CHR 0xE7,
     CHR 0x89, CHR 0xA9, CHR 0xE6, CHR 0xB5, CHR 0x81, CHR 0xE5, CHR 0x90, CHR 0x9E,
     CHR 0xE5, CHR 0x90, CHR 0x90, CHR 0xEF, CHR 0xBC, CHR 0x8C, CHR 0xE9, CHR 0x99,
     CHR 0x8D, CHR 0xE4, CHR 0xBD, CHR 0x8E, CHR 0xE9, CHR 0xAB, CHR 0x98, CHR 0xE7,
     CHR 0xAB, CHR 0xAF] @ '' SKU '' @ [CHR 0xE6, CHR 0xB5, CHR 0x81, CHR 0xE5, CHR 0xA4,
     CHR 0xB1, CHR 0xE9, CHR 0xA3, CHR 0x8E, CHR 0xE9, CHR 0x99, CHR 0xA9, CHR 0xE3,
     CHR 0x80, CHR 0x82]"

definition fallbackTitle :: string where
  "fallbackTitle =
     [CHR 0xE6, CHR 0x88, CHR 0x98, CHR 0xE7, CHR 0x95, CHR 0xA5, CHR 0xE6, CHR 0x8F,
     CHR 0x90, CHR 0xE7, CHR 0xA4, CHR 0xBA]"

definition fallbackMessage :: string where
  "fallbackMessage =
     [CHR 0xE8, CHR 0xAF, CHR 0xB7, CHR 0xE5, CHR 0x9C, CHR 0xA8, CHR 0xE5, CHR 0x85,
     CHR 0xB3, CHR 0xE9, CHR 0x94, CHR 0xAE, CHR 0xE6, CHR 0x8C, CHR 0x87, CHR 0xE6,
     CHR 0xA0, CHR 0x87, CHR 0xE4, CHR 0xB8, CHR 0x8A, CHR 0xE4, CHR 0xBF, CHR 0x9D,
     CHR 0xE6, CHR 0x8C, CHR 0x81, CHR 0xE8, CHR 0xB5, CHR 0x84, CHR 0xE6, CHR 0xBA,
     CHR 0x90, CHR 0xE9, CHR 0x9B, CHR 0x86, CHR 0xE4, CHR 0xB8, CHR 0xAD, CHR 0xE5,
     CHR 0xBA, CHR 0xA6, CHR 0xE3, CHR 0x80, CHR 0x82]"

definition wordStable :: string where
  "wordStable =
     [CHR 0xE7, CHR 0xA8, CHR 0xB3, CHR 0xE5, CHR 0xAE, CHR 0x9A]"

definition wordStrong :: string where
  "wordStrong =
     [CHR 0xE5, CHR 0xBC, CHR 0xBA, CHR 0xE5, CHR 0x8A, CHR 0xB2]"

definition wordFragile :: string where
  "wordFragile =
     [CHR 0xE8, CHR 0x84, CHR 0x86, CHR 0xE5, CHR 0xBC, CHR 0xB1]"

definition wordSteady :: string where
  "wordSteady =
     [CHR 0xE5, CHR 0xB9, CHR 0xB3, CHR 0xE7, CHR 0xA8, CHR 0xB3]"

definition wordAccelerating :: string where
  "wordAccelerating =
     [CHR 0xE5, CHR 0x8A, CHR 0xA0, CHR 0xE9, CHR 0x80, CHR 0x9F]"

definition wordWeakening :: string where
  "wordWeakening =
     [CHR 0xE8, CHR 0xB5, CHR 0xB0, CHR 0xE5, CHR 0xBC, CHR 0xB1]"

definition wordManageable :: string where
  "wordManageable =
     [CHR 0xE5, CHR 0x8F, CHR 0xAF, CHR 0xE6, CHR 0x8E, CHR 0xA7]"

definition wordRising :: string where
  "wordRising =
     [CHR 0xE4, CHR 0xB8, CHR 0x8A, CHR 0xE8, CHR 0xA1, CHR 0x8C]"

definition wordLow :: string where
  "wordLow =
     [CHR 0xE8, CHR 0xBE, CHR 0x83, CHR 0xE4, CHR 0xBD, CHR 0x8E]"

definition sentenceDemand :: string where
  "sentenceDemand =
     [CHR 0xE9, CHR 0x9C, CHR 0x80, CHR 0xE6, CHR 0xB1, CHR 0x82, CHR 0xE5, CHR 0x8A,
     CHR 0xA8, CHR 0xE8, CHR 0x83, CHR 0xBD]"

definition sentenceSentiment :: string where
  "sentenceSentiment =
     [CHR 0xEF, CHR 0xBC, CHR 0x8C, CHR 0xE8, CHR 0x88, CHR 0x86, CHR 0xE6, CHR 0x83,
     CHR 0x85]"

definition sentenceBacklog :: string where
  "sentenceBacklog =
     [CHR 0xE3, CHR 0x80, CHR 0x82, CHR 0xE7, CHR 0xA7, CHR 0xAF, CHR 0xE5, CHR 0x8E,
     CHR 0x8B, CHR 0xE9, CHR 0xA3, CHR 0x8E, CHR 0xE9, CHR 0x99, CHR 0xA9]"

definition sentenceAdvice :: string where
  "sentenceAdvice =
     [CHR 0xEF, CHR 0xBC, CHR 0x8C, CHR 0xE5, CHR 0xBB, CHR 0xBA, CHR 0xE8, CHR 0xAE,
     CHR 0xAE, CHR 0xE5, CHR 0xB0, CHR 0x86, CHR 0xE5, CHR 0xB1, CHR 0xA5, CHR 0xE7,
     CHR 0xBA, CHR 0xA6, CHR 0xE8, CHR 0x83, CHR 0xBD, CHR 0xE5, CHR 0x8A, CHR 0x9B,
     CHR 0xE5, CHR 0x80, CHR 0xBE, CHR 0xE5, CHR 0x90, CHR 0x91, CHR 0xE9, CHR 0xAB,
     CHR 0x98, CHR 0xE6, CHR 0xAF, CHR 0x9B, CHR 0xE5, CHR 0x88, CHR 0xA9, CHR 0xE5,
     CHR 0x8C, CHR 0xBA, CHR 0xE5, CHR 0x9F, CHR 0x9F, CHR 0xE3, CHR 0x80, CHR 0x82]"


section \<open>Insight synthesizer (package api)\<close>

text \<open>
  \<open>strings.ToLower\<close>: a string of ASCII bytes only has its letters \<open>A\<close> to \<open>Z\<close> moved to
  \<open>a\<close> to \<open>z\<close>; any other string is mapped rune by rune through the Unicode tables of
  the Go library, which are the parameter \<open>unicodeLower\<close>.
\<close>

definition isASCII :: "string \<Rightarrow> bool" where
  "isASCII s = list_all (\<lambda>c. (of_char c :: nat) < 128) s"

definition isUpperByte :: "char \<Rightarrow> bool" where
  "isUpperByte c = (65 \<le> (of_char c :: nat) \<and> (of_char c :: nat) \<le> 90)"

definition lowerByte :: "char \<Rightarrow> char" where
  "lowerByte c = (if isUpperByte c then char_of ((of_char c :: nat) + 32) else c)"

definition ToLower :: "(string \<Rightarrow> string) \<Rightarrow> string \<Rightarrow> string" where
  "ToLower unicodeLower s = (if isASCII s then map lowerByte s else unicodeLower s)"

text \<open>\<open>func buildMetricInsight(key string, metrics store.Metrics) (string, string)\<close>\<close>

definition buildMetricInsight ::
  "(string \<Rightarrow> string) \<Rightarrow> string \<Rightarrow> Metrics \<Rightarrow> string \<times> string" where
  "buildMetricInsight unicodeLower key metrics =
     (let k = ToLower unicodeLower key in
      if k = ''revenue'' then (revenueTitle, revenueMessage)
      else if k = ''growth'' then (growthTitle, growthMessage)
      else if k = ''sentiment'' then (sentimentTitle, sentimentMessage)
      else if k = ''backlog'' then (backlogTitle, backlogMessage)
      else (fallbackTitle, fallbackMessage))"

text \<open>\<open>func buildAutoInsight(metrics store.Metrics) string\<close>\<close>

definition buildAutoInsight :: "Metrics \<Rightarrow> string" where
  "buildAutoInsight metrics =
     (let strength = (if Sentiment metrics > 74 then wordStrong
                      else if Sentiment metrics < 66 then wordFragile else wordStable);
          revenuePulse = (if Revenue metrics > 5.1 then wordAccelerating
                          else if Revenue metrics < 4.6 then wordWeakening else wordSteady);
          backlogRisk = (if Backlog metrics > 150 then wordRising
                         else if Backlog metrics < 120 then wordLow else wordManageable)
      in sentenceDemand @ revenuePulse @ sentenceSentiment @ strength @ sentenceBacklog
           @ backlogRisk @ sentenceAdvice)"

text \<open>
  Two strings are case variants of each other when they have the same length and agree
  byte by byte up to the case of the ASCII letters.
\<close>

definition sameLetter :: "char \<Rightarrow> char \<Rightarrow> bool" where
  "sameLetter a b = (a = b \<or> (isUpperByte a \<and> b = lowerByte a) \<or> (isUpperByte b \<and> a = lowerByte b))"

definition caseVariant :: "string \<Rightarrow> string \<Rightarrow> bool" where
  "caseVariant k k' = list_all2 sameLetter k k'"

section \<open>Request layer (package api)\<close>

text \<open>
  Of a request the handlers read the parsed query (\<open>r.URL.Query()\<close>, a list of values
  per key) and the result of decoding the body as an \<open>InsightRequest\<close>.
\<close>

record InsightRequest =
  MetricKey :: string

record request =
  query :: "string \<Rightarrow> string list"
  decoded :: "error + InsightRequest"

record TrendPoint =
  Timestamp :: time
  TrendRevenue :: real

datatype payload =
    MetricsResponse Metrics time
  | TrendResponse "TrendPoint list"
  | InsightsResponse "Insight list"
  | InsightData Insight
  | MetricsData Metrics
  | ErrorBody error

record response =
  status :: nat
  body :: payload

definition writeJSON :: "nat \<Rightarrow> payload \<Rightarrow> response" where
  "writeJSON code p = \<lparr>status = code, body = p\<rparr>"

definition writeError :: "nat \<Rightarrow> error option \<Rightarrow> response" where
  "writeError code err =
     (case err of
        None \<Rightarrow> writeJSON code (ErrorBody (Err ''unknown error''))
      | Some e \<Rightarrow> writeJSON code (ErrorBody e))"

text \<open>\<open>url.Values.Get\<close>: the first value of the key, the empty string without one.\<close>

definition Get :: "(string \<Rightarrow> string list) \<Rightarrow> string \<Rightarrow> string" where
  "Get values key = (case values key of [] \<Rightarrow> [] | v # _ \<Rightarrow> v)"

text \<open>
  \<open>strconv.Atoi\<close>: an optional sign, then one or more decimal digits; the number must
  fit 64 bits. Anything else is an error (\<open>None\<close>).
\<close>

definition isDigit :: "char \<Rightarrow> bool" where
  "isDigit c = (48 \<le> (of_char c :: nat) \<and> (of_char c :: nat) \<le> 57)"

definition digitsValue :: "string \<Rightarrow> int" where
  "digitsValue ds = foldl (\<lambda>n c. n * 10 + (int (of_char c) - 48)) 0 ds"

definition Atoi :: "string \<Rightarrow> int option" where
  "Atoi s =
     (let neg = (s \<noteq> [] \<and> hd s = CHR ''-'');
          ds = (if s \<noteq> [] \<and> (hd s = CHR ''-'' \<or> hd s = CHR ''+'') then tl s else s)
      in if ds = [] \<or> \<not> list_all isDigit ds then None
         else let n = (if neg then - digitsValue ds else digitsValue ds)
              in if - (2 ^ 63) \<le> n \<and> n < 2 ^ 63 then Some n else None)"

text \<open>\<open>func parseQueryInt(r *http.Request, key string, fallback int) int\<close>\<close>

definition parseQueryInt :: "request \<Rightarrow> string \<Rightarrow> int \<Rightarrow> int" where
  "parseQueryInt r key fallback =
     (let v = Get (query r) key in
      if v = [] then fallback
      else (case Atoi v of None \<Rightarrow> fallback | Some parsed \<Rightarrow> parsed))"

text \<open>\<open>func defaultMetrics() store.Metrics\<close>\<close>

definition defaultMetrics :: "'a env_scheme \<Rightarrow> Metrics \<times> 'a env_scheme" where
  "defaultMetrics w =
     (case timeNow w of (now, w1) \<Rightarrow>
        (\<lparr>Revenue = 4.82, Growth = 18.6, Sentiment = 72, Backlog = 128, CreatedAt = now\<rparr>, w1))"

text \<open>
  \<open>func seedTrendMetrics() []store.Metrics\<close>: \<open>seedTrendLoop\<close> is the \<open>for\<close> loop, from
  the counter \<open>i\<close> and the points appended so far.
\<close>

function seedTrendLoop ::
  "int \<Rightarrow> Metrics \<Rightarrow> Metrics list \<Rightarrow> 'a env_scheme \<Rightarrow> Metrics list \<times> 'a env_scheme" where
  "seedTrendLoop i base points w =
     (if i < 12 then
        (let v = 55 + of_int i * 1.8 + (of_int i / 1.8) * 2.0 in
         case timeNow w of (now, w1) \<Rightarrow>
           seedTrendLoop (i + 1) base
             (points @ [\<lparr>Revenue = v / 10, Growth = Growth base, Sentiment = Sentiment base,
                          Backlog = Backlog base, CreatedAt = Add now ((i - 12) * Minute)\<rparr>])
             w1)
      else (points, w))"
  by pat_completeness auto
termination
  by (relation "measure (\<lambda>(i, base, points, w). nat (12 - i))") auto

declare seedTrendLoop.simps [simp del]

definition seedTrendMetrics :: "'a env_scheme \<Rightarrow> Metrics list \<times> 'a env_scheme" where
  "seedTrendMetrics w = (case defaultMetrics w of (base, w1) \<Rightarrow> seedTrendLoop 0 base [] w1)"

text \<open>\<open>func (s *Server) handleLatestMetrics(w, r)\<close>\<close>

definition handleLatestMetrics :: "request \<Rightarrow> world \<Rightarrow> response \<times> world" where
  "handleLatestMetrics r w =
     (case LatestMetrics w of
        ((metrics, Some e), w1) \<Rightarrow> (writeError 500 (Some e), w1)
      | ((metrics, None), w1) \<Rightarrow>
          (case (if IsZero (CreatedAt metrics) then
                   (case defaultMetrics w1 of (seed, w2) \<Rightarrow>
                    case InsertMetricsAt seed w2 of
                      (Some e, w3) \<Rightarrow> (seed, logPrintf ''seed metrics failed: %v'' e w3)
                    | (None, w3) \<Rightarrow> (seed, w3))
                 else (metrics, w1)) of
             (metrics', w4) \<Rightarrow>
               (case timeNow w4 of (now, w5) \<Rightarrow>
                  (writeJSON 200 (MetricsResponse metrics' now), w5))))"

text \<open>
  The seeding loop of \<open>handleTrend\<close>: the points are inserted in order; the first
  failure is logged and ends the loop.
\<close>

fun seedTrendInsert :: "Metrics list \<Rightarrow> world \<Rightarrow> world" where
  "seedTrendInsert [] w = w"
| "seedTrendInsert (point # rest) w =
     (case InsertMetricsAt point w of
        (Some e, w1) \<Rightarrow> logPrintf ''seed trend failed: %v'' e w1
      | (None, w1) \<Rightarrow> seedTrendInsert rest w1)"

text \<open>\<open>func (s *Server) handleTrend(w, r)\<close>\<close>

definition handleTrend :: "request \<Rightarrow> world \<Rightarrow> response \<times> world" where
  "handleTrend r w =
     (let window = parseQueryInt r ''window'' 12;
          window = (if window < 3 then 3 else window)
      in case Trend window w of
           ((points, Some e), w1) \<Rightarrow> (writeError 500 (Some e), w1)
         | ((points, None), w1) \<Rightarrow>
             (case (if length points = 0 then
                      (case seedTrendMetrics w1 of (seeded, w2) \<Rightarrow>
                         (seeded, seedTrendInsert seeded w2))
                    else (points, w1)) of
                (points', w3) \<Rightarrow>
                  (writeJSON 200
                     (TrendResponse
                        (map (\<lambda>point. \<lparr>Timestamp = CreatedAt point,
                                         TrendRevenue = Revenue point\<rparr>) points')),
                   w3)))"

text \<open>
  The limit \<open>handleLatestInsights\<close> passes to the store: the first three lines of the
  handler.
\<close>

definition latestInsightsLimit :: "request \<Rightarrow> int" where
  "latestInsightsLimit r =
     (let limit = parseQueryInt r ''limit'' 6 in if limit < 1 then 6 else limit)"

text \<open>\<open>func (s *Server) handleLatestInsights(w, r)\<close>\<close>

definition handleLatestInsights :: "request \<Rightarrow> world \<Rightarrow> response \<times> world" where
  "handleLatestInsights r w =
     (case LatestInsights (latestInsightsLimit r) w of
        ((items, Some e), w1) \<Rightarrow> (writeError 500 (Some e), w1)
      | ((items, None), w1) \<Rightarrow>
          (if length items = 0 then
             (case InsertInsight \<lparr>ID = 0, Title = seedInsightTitle,
                      Message = seedInsightMessage, Source = ''auto'',
                      InsightCreatedAt = 0\<rparr> w1 of
                ((seed, Some e), w2) \<Rightarrow>
                  (case timeNow (logPrintf ''seed insight failed: %v'' e w2) of (now, w3) \<Rightarrow>
                     (writeJSON 200
                        (InsightsResponse
                           [\<lparr>ID = 0, Title = seedInsightTitle, Message = seedInsightMessage,
                             Source = ''auto'', InsightCreatedAt = now\<rparr>]),
                      w3))
              | ((seed, None), w2) \<Rightarrow> (writeJSON 200 (InsightsResponse [seed]), w2))
           else (writeJSON 200 (InsightsResponse items), w1)))"

text \<open>\<open>func (s *Server) handleCreateInsight(w, r)\<close>\<close>

definition handleCreateInsight ::
  "(string \<Rightarrow> string) \<Rightarrow> request \<Rightarrow> world \<Rightarrow> response \<times> world" where
  "handleCreateInsight unicodeLower r w =
     (case decoded r of
        Inl e \<Rightarrow> (writeError 400 (Some e), w)
      | Inr payload \<Rightarrow>
          (case LatestMetrics w of
             ((metrics, Some e), w1) \<Rightarrow> (writeError 500 (Some e), w1)
           | ((metrics, None), w1) \<Rightarrow>
               (case (if IsZero (CreatedAt metrics) then defaultMetrics w1
                      else (metrics, w1)) of
                  (metrics', w2) \<Rightarrow>
                    (case buildMetricInsight unicodeLower (MetricKey payload) metrics' of
                       (title, message) \<Rightarrow>
                         (case InsertInsight \<lparr>ID = 0, Title = title, Message = message,
                                  Source = ''metric'', InsightCreatedAt = 0\<rparr> w2 of
                            ((insight, Some e), w3) \<Rightarrow> (writeError 500 (Some e), w3)
                          | ((insight, None), w3) \<Rightarrow>
                              (writeJSON 200 (InsightData insight), w3))))))"

text \<open>\<open>func (s *Server) handleSimulateMetrics(w, r)\<close>\<close>

definition handleSimulateMetrics :: "request \<Rightarrow> world \<Rightarrow> response \<times> world" where
  "handleSimulateMetrics r w =
     (case LatestMetrics w of
        ((metrics, Some e), w1) \<Rightarrow> (writeError 500 (Some e), w1)
      | ((metrics, None), w1) \<Rightarrow>
          (case (if IsZero (CreatedAt metrics) then defaultMetrics w1
                 else (metrics, w1)) of
             (metrics', w2) \<Rightarrow>
               (case simulateMetrics metrics' w2 of (next, w3) \<Rightarrow>
                  (case InsertMetrics next w3 of
                     (Some e, w4) \<Rightarrow> (writeError 500 (Some e), w4)
                   | (None, w4) \<Rightarrow> (writeJSON 200 (MetricsData next), w4)))))"

section \<open>Simulation scheduler (package api)\<close>

text \<open>
  \<open>func (s *Server) StartSimulation(ctx, metricEvery, insightEvery)\<close>: each round of the
  loop takes one event from the \<open>select\<close>. \<open>metricsTick\<close> and \<open>insightTick\<close> are the bodies
  of the two ticker cases; the loop runs over the events that arrive and returns at
  \<open>Done\<close>.
\<close>

datatype event = Done | MetricsTicker | InsightTicker

definition metricsTick :: "world \<Rightarrow> world" where
  "metricsTick w =
     (case LatestMetrics w of
        ((metrics, Some e), w1) \<Rightarrow> w1
      | ((metrics, None), w1) \<Rightarrow>
          (case (if IsZero (CreatedAt metrics) then defaultMetrics w1
                 else (metrics, w1)) of
             (metrics', w2) \<Rightarrow>
               (case simulateMetrics metrics' w2 of (next, w3) \<Rightarrow>
                  (case InsertMetrics next w3 of
                     (Some e, w4) \<Rightarrow> logPrintf ''simulate metrics failed: %v'' e w4
                   | (None, w4) \<Rightarrow> w4))))"

definition insightTick :: "world \<Rightarrow> world" where
  "insightTick w =
     (case LatestMetrics w of
        ((metrics, Some e), w1) \<Rightarrow> w1
      | ((metrics, None), w1) \<Rightarrow>
          (case (if IsZero (CreatedAt metrics) then defaultMetrics w1
                 else (metrics, w1)) of
             (metrics', w2) \<Rightarrow>
               (case InsertInsight \<lparr>ID = 0, Title = advisorTitle,
                        Message = buildAutoInsight metrics', Source = ''auto'',
                        InsightCreatedAt = 0\<rparr> w2 of
                  ((insight, Some e), w3) \<Rightarrow> logPrintf ''simulate insight failed: %v'' e w3
                | ((insight, None), w3) \<Rightarrow> w3)))"

fun StartSimulation :: "event list \<Rightarrow> world \<Rightarrow> world" where
  "StartSimulation [] w = w"
| "StartSimulation (Done # events) w = w"
| "StartSimulation (MetricsTicker # events) w = StartSimulation events (metricsTick w)"
| "StartSimulation (InsightTicker # events) w = StartSimulation events (insightTick w)"

section \<open>Definitions used in the statements\<close>

text \<open>
  The point round \<open>i\<close> of \<open>seedTrendLoop\<close> appends when the clock reads \<open>now\<close>, and the
  trend point the handler answers for it when the clock readings are \<open>c\<close> (the reading
  \<open>c 0\<close> is taken by \<open>defaultMetrics\<close>, round \<open>i\<close> takes \<open>c (Suc i)\<close>).
\<close>

definition seedPoint :: "Metrics \<Rightarrow> int \<Rightarrow> time \<Rightarrow> Metrics" where
  "seedPoint base i now =
     \<lparr>Revenue = (55 + of_int i * 1.8 + (of_int i / 1.8) * 2.0) / 10, Growth = Growth base,
      Sentiment = Sentiment base, Backlog = Backlog base,
      CreatedAt = now + (i - 12) * Minute\<rparr>"

definition rampPoint :: "(nat \<Rightarrow> time) \<Rightarrow> nat \<Rightarrow> TrendPoint" where
  "rampPoint c i =
     \<lparr>Timestamp = c (Suc i) - (12 - int i) * Minute,
      TrendRevenue = (55 + real i * 1.8 + (real i / 1.8) * 2.0) / 10\<rparr>"

text \<open>The baseline snapshot of \<open>defaultMetrics\<close> when the clock reads \<open>now\<close>.\<close>

definition baseline :: "time \<Rightarrow> Metrics" where
  "baseline now =
     \<lparr>Revenue = 4.82, Growth = 18.6, Sentiment = 72, Backlog = 128, CreatedAt = now\<rparr>"

text \<open>
  \<open>emptied w\<close> is the world \<open>w\<close> with no metrics row; \<open>keepingRows w e\<close> is the world \<open>e\<close>
  with the metrics rows of \<open>w\<close> in front of its own.
\<close>

definition emptied :: "world \<Rightarrow> world" where
  "emptied w = w\<lparr>metrics_snapshot := []\<rparr>"

definition keepingRows :: "world \<Rightarrow> world \<Rightarrow> world" where
  "keepingRows w e = e\<lparr>metrics_snapshot := metrics_snapshot w @ metrics_snapshot e\<rparr>"

text \<open>
  Concrete worlds and requests for the examples: every draw is 1/2, both clocks read
  1000 at every reading, no statement fails unless \<open>failAt\<close> says so.
\<close>

definition always :: "'a \<Rightarrow> nat \<Rightarrow> 'a" where
  "always x n = x"

definition failAt :: "nat \<Rightarrow> error \<Rightarrow> nat \<Rightarrow> error option" where
  "failAt k e n = (if n = k then Some e else None)"

definition emptyWorld :: world where
  "emptyWorld = \<lparr>rng = always (1 / 2), clock = always 1000, metrics_snapshot = [],
     insights = [], dbclock = always 1000, faults = always None, logs = []\<rparr>"

definition snapshotAt :: "time \<Rightarrow> Metrics" where
  "snapshotAt t = \<lparr>Revenue = 5.0, Growth = 20, Sentiment = 80, Backlog = 100, CreatedAt = t\<rparr>"

definition storedWorld :: "Metrics list \<Rightarrow> world" where
  "storedWorld rows = emptyWorld\<lparr>metrics_snapshot := rows\<rparr>"

definition insightAt :: "int \<Rightarrow> time \<Rightarrow> Insight" where
  "insightAt n t = \<lparr>ID = n, Title = advisorTitle, Message = ''m'', Source = ''auto'',
     InsightCreatedAt = t\<rparr>"

definition twoInsightsWorld :: world where
  "twoInsightsWorld = emptyWorld\<lparr>insights := [insightAt 1 10, insightAt 2 20]\<rparr>"


definition insightRequest :: "string \<Rightarrow> request" where
  "insightRequest key = \<lparr>query = (\<lambda>k. []), decoded = Inr \<lparr>MetricKey = key\<rparr>\<rparr>"

definition queryRequest :: "string \<Rightarrow> string \<Rightarrow> request" where
  "queryRequest key v =
     \<lparr>query = (\<lambda>k. if k = key then [v] else []), decoded = Inl (Err ''EOF'')\<rparr>"

definition plainRequest :: request where
  "plainRequest = \<lparr>query = (\<lambda>k. []), decoded = Inl (Err ''EOF'')\<rparr>"

section \<open>The metric simulator\<close>

lemma clamp_bounds: "lo \<le> hi \<Longrightarrow> lo \<le> clamp v lo hi \<and> clamp v lo hi \<le> hi"
  by (simp add: clamp_def)



lemma toInt_bounds:
  assumes "of_int a \<le> x" and "x \<le> of_int b" and "0 \<le> a"
  shows "a \<le> toInt x \<and> toInt x \<le> b"
proof -
  from assms have nonneg: "0 \<le> x" by linarith
  from assms(1) have "a \<le> \<lfloor>x\<rfloor>" by (simp add: le_floor_iff)
  moreover from assms(2) have "\<lfloor>x\<rfloor> \<le> b" by (simp add: floor_le_iff)
  ultimately show ?thesis using nonneg by (simp add: toInt_def)
qed

text \<open>
  The snapshot \<open>simulateMetrics\<close> returns, in terms of the first four draws and the first
  clock reading of the world it runs in, and the world it leaves.
\<close>

lemma simulateMetrics_fields:
  "fst (simulateMetrics previous w) =
     \<lparr>Revenue = clamp (Revenue previous + (rng w 0 - 0.35) * 0.12) 3.9 6.2,
      Growth = clamp (Growth previous + (rng w 1 - 0.45) * 1.6) 10 28,
      Sentiment = clamp (Sentiment previous + (rng w 2 - 0.5) * 2.4) 58 90,
      Backlog = toInt (clamp (of_int (Backlog previous) + (rng w 3 - 0.4) * 6) 95 180),
      CreatedAt = clock w 0\<rparr>"
  by (simp add: simulateMetrics_def Float64_def timeNow_def pop_def eval_nat_numeral)

lemma simulateMetrics_world:
  "snd (simulateMetrics previous w) =
     w\<lparr>rng := \<lambda>n. rng w (n + 4), clock := \<lambda>n. clock w (Suc n)\<rparr>"
  by (simp add: simulateMetrics_def Float64_def timeNow_def pop_def add.commute eval_nat_numeral)

lemma simulateMetrics_ranges:
  "3.9 \<le> Revenue (fst (simulateMetrics previous w)) \<and>
   Revenue (fst (simulateMetrics previous w)) \<le> 6.2 \<and>
   10 \<le> Growth (fst (simulateMetrics previous w)) \<and>
   Growth (fst (simulateMetrics previous w)) \<le> 28 \<and>
   58 \<le> Sentiment (fst (simulateMetrics previous w)) \<and>
   Sentiment (fst (simulateMetrics previous w)) \<le> 90 \<and>
   95 \<le> Backlog (fst (simulateMetrics previous w)) \<and>
   Backlog (fst (simulateMetrics previous w)) \<le> 180"
proof -
  have r: "(3.9::real) \<le> 6.2" and g: "(10::real) \<le> 28" and s: "(58::real) \<le> 90"
    and b: "(95::real) \<le> 180" by simp_all
  let ?c = "clamp (of_int (Backlog previous) + (rng w 3 - 0.4) * 6) 95 180"
  have "of_int 95 \<le> ?c" and "?c \<le> of_int 180"
    using clamp_bounds [OF b] by simp_all
  then have "95 \<le> toInt ?c \<and> toInt ?c \<le> 180"
    by (intro toInt_bounds) simp_all
  then show ?thesis
    using clamp_bounds [OF r] clamp_bounds [OF g] clamp_bounds [OF s]
    by (simp add: simulateMetrics_fields)
qed

text \<open>
  Claim C1. Whatever the previous snapshot holds and whatever the random source draws
  (in particular for draws in [0, 1)), the snapshot returned by \<open>simulateMetrics\<close> has
  revenue in [3.9, 6.2], growth in [10, 28], sentiment in [58, 90] and backlog in
  [95, 180].
\<close>

theorem simulateMetrics_in_range:
  "3.9 \<le> Revenue (fst (simulateMetrics previous w)) \<and>
   Revenue (fst (simulateMetrics previous w)) \<le> 6.2 \<and>
   10 \<le> Growth (fst (simulateMetrics previous w)) \<and>
   Growth (fst (simulateMetrics previous w)) \<le> 28 \<and>
   58 \<le> Sentiment (fst (simulateMetrics previous w)) \<and>
   Sentiment (fst (simulateMetrics previous w)) \<le> 90 \<and>
   95 \<le> Backlog (fst (simulateMetrics previous w)) \<and>
   Backlog (fst (simulateMetrics previous w)) \<le> 180"
  by (rule simulateMetrics_ranges)

lemma simulateMetricsRounded_fields:
  "fst (simulateMetricsRounded fl fused previous w) =
     \<lparr>Revenue = clamp (muladd fl fused (Revenue previous) (fl (rng w 0 - fl 0.35)) (fl 0.12))
                   (fl 3.9) (fl 6.2),
      Growth = clamp (muladd fl fused (Growth previous) (fl (rng w 1 - fl 0.45)) (fl 1.6)) 10 28,
      Sentiment = clamp (muladd fl fused (Sentiment previous) (fl (rng w 2 - 0.5)) (fl 2.4)) 58 90,
      Backlog = toInt (clamp (muladd fl fused (fl (of_int (Backlog previous)))
                                (fl (rng w 3 - fl 0.4)) 6) 95 180),
      CreatedAt = clock w 0\<rparr>"
  by (simp add: simulateMetricsRounded_def Float64_def timeNow_def pop_def eval_nat_numeral)

text \<open>With exact arithmetic the rounded simulator is \<open>simulateMetrics\<close>.\<close>

lemma simulateMetricsRounded_exact:
  "simulateMetricsRounded (\<lambda>x. x) fused previous w = simulateMetrics previous w"
  by (simp add: simulateMetricsRounded_def simulateMetrics_def muladd_def)

text \<open>
  The two differ where rounding carries a value over an integer. The draw
  \<open>0.8999999999999999\<close> is the float64 \<open>2026619832316723 / 2^51\<close>; the premises on \<open>fl\<close>
  are the float64 roundings of the four values that occur. From the backlog 100 the
  rounded simulator returns 103, as the program does, and the exact one 102.
\<close>

lemma simulateMetricsRounded_binary64_example:
  assumes c: "fl (2 / 5) = 3602879701896397 / 9007199254740992"
    and h: "fl 100 = 100"
    and d: "fl (4503599627370495 / 9007199254740992) = 4503599627370495 / 9007199254740992"
    and p: "fl (13510798882111485 / 4503599627370496) = 3377699720527871 / 1125899906842624"
    and s: "fl (115967690404790271 / 1125899906842624) = 103"
    and u: "rng w 3 = 2026619832316723 / 2251799813685248"
    and b: "Backlog previous = 100"
  shows "Backlog (fst (simulateMetricsRounded fl False previous w)) = 103 \<and>
     Backlog (fst (simulateMetrics previous w)) = 102"
proof -
  have e1: "rng w 3 - fl (2 / 5) = 4503599627370495 / 9007199254740992"
    unfolding c u by simp
  have e2: "fl (rng w 3 - fl (2 / 5)) = 4503599627370495 / 9007199254740992"
    by (simp only: e1 d)
  have e3: "(4503599627370495 / 9007199254740992) * (6::real) =
      13510798882111485 / 4503599627370496"
    by simp
  have e4: "fl (fl (rng w 3 - fl (2 / 5)) * 6) = 3377699720527871 / 1125899906842624"
    by (simp only: e2 e3 p)
  have e5: "(100::real) + 3377699720527871 / 1125899906842624 =
      115967690404790271 / 1125899906842624"
    by simp
  have "muladd fl False (fl 100) (fl (rng w 3 - fl (2 / 5))) 6 = 103"
    unfolding muladd_def by (simp only: if_False e4 h e5 s)
  then have "Backlog (fst (simulateMetricsRounded fl False previous w)) = 103"
    by (simp add: simulateMetricsRounded_fields b clamp_def toInt_def)
  moreover have "Backlog (fst (simulateMetrics previous w)) = 102"
    by (simp add: simulateMetrics_fields b u clamp_def toInt_def)
  ultimately show ?thesis by simp
qed




section \<open>The store\<close>

lemma LatestMetrics_fault:
  "faults w 0 = Some e \<Longrightarrow>
   LatestMetrics w = ((zeroMetrics, Some e), w\<lparr>faults := \<lambda>n. faults w (Suc n)\<rparr>)"
  by (simp add: LatestMetrics_def dbCall_def pop_def)

lemma LatestMetrics_empty:
  "faults w 0 = None \<Longrightarrow> metrics_snapshot w = [] \<Longrightarrow>
   LatestMetrics w = ((zeroMetrics, None), w\<lparr>faults := \<lambda>n. faults w (Suc n)\<rparr>)"
  by (simp add: LatestMetrics_def dbCall_def pop_def orderByCreatedAtDesc_def)

lemma LatestMetrics_row:
  "faults w 0 = None \<Longrightarrow> orderByCreatedAtDesc (metrics_snapshot w) = m # rest \<Longrightarrow>
   LatestMetrics w = ((m, None), w\<lparr>faults := \<lambda>n. faults w (Suc n)\<rparr>)"
  by (simp add: LatestMetrics_def dbCall_def pop_def)

lemma LatestMetrics_nonempty:
  assumes "faults w 0 = None"
  shows "LatestMetrics w =
     ((case orderByCreatedAtDesc (metrics_snapshot w) of [] \<Rightarrow> zeroMetrics | m # _ \<Rightarrow> m, None),
      w\<lparr>faults := \<lambda>n. faults w (Suc n)\<rparr>)"
  using assms by (simp add: LatestMetrics_def dbCall_def pop_def split: list.splits)

text \<open>
  Claim C6. \<open>LatestMetrics\<close> on a store without snapshots, when the query is executed,
  returns the absent result (the zero snapshot) and no error; when the query fails it
  returns the error; the two outcomes differ.
\<close>

theorem LatestMetrics_absent_or_error:
  "(faults w 0 = None \<and> metrics_snapshot w = [] \<longrightarrow>
      fst (LatestMetrics w) = (zeroMetrics, None)) \<and>
   (faults w 0 = Some e \<longrightarrow> snd (fst (LatestMetrics w)) = Some e) \<and>
   (faults w 0 = None \<and> metrics_snapshot w = [] \<and> faults w' 0 = Some e \<longrightarrow>
      fst (LatestMetrics w) \<noteq> fst (LatestMetrics w'))"
  by (simp add: LatestMetrics_fault LatestMetrics_empty)

theorem LatestMetrics_absent_or_error_witness:
  "fst (LatestMetrics emptyWorld) = (zeroMetrics, None) \<and>
   snd (fst (LatestMetrics (emptyWorld\<lparr>faults := always (Some (Err ''bad connection''))\<rparr>))) =
     Some (Err ''bad connection'') \<and>
   fst (LatestMetrics emptyWorld) \<noteq>
     fst (LatestMetrics (emptyWorld\<lparr>faults := always (Some (Err ''bad connection''))\<rparr>))"
  using LatestMetrics_absent_or_error [of emptyWorld "Err ''bad connection''"
      "emptyWorld\<lparr>faults := always (Some (Err ''bad connection''))\<rparr>"]
    LatestMetrics_absent_or_error
      [of "emptyWorld\<lparr>faults := always (Some (Err ''bad connection''))\<rparr>"
        "Err ''bad connection''" emptyWorld]
  by (auto simp add: emptyWorld_def always_def)

lemma length_orderByCreatedAtDesc: "length (orderByCreatedAtDesc rows) = length rows"
  by (simp add: orderByCreatedAtDesc_def)

lemma orderByCreatedAtDesc_Nil: "orderByCreatedAtDesc [] = []"
  by (simp add: orderByCreatedAtDesc_def)

lemma mset_orderByCreatedAtDesc: "mset (orderByCreatedAtDesc rows) = mset rows"
  by (simp add: orderByCreatedAtDesc_def)

lemma descending_orderByCreatedAtDesc:
  "sorted (rev (map CreatedAt (orderByCreatedAtDesc rows)))"
  by (simp add: orderByCreatedAtDesc_def rev_map)

lemma ascending_rev_take:
  "sorted (map CreatedAt (rev (take n (orderByCreatedAtDesc rows))))"
proof -
  have "rev (take n (orderByCreatedAtDesc rows)) =
      drop (length rows - n) (sort_key CreatedAt rows)"
    by (simp add: orderByCreatedAtDesc_def take_rev)
  moreover have "sorted (map CreatedAt (drop (length rows - n) (sort_key CreatedAt rows)))"
    by (simp add: drop_map [symmetric] sorted_wrt_drop)
  ultimately show ?thesis by simp
qed

text \<open>The loop of \<open>Trend\<close> reverses the slice.\<close>

lemma reverseInPlace_nth:
  "0 \<le> i \<Longrightarrow> j < int (length xs) \<Longrightarrow>
   length (reverseInPlace i j xs) = length xs \<and>
   (\<forall>k < length xs. reverseInPlace i j xs ! k =
      (if i \<le> int k \<and> int k \<le> j then xs ! nat (i + j - int k) else xs ! k))"
proof (induction i j xs rule: reverseInPlace.induct)
  case (1 i j points)
  show ?case
  proof (cases "i < j")
    case False
    then have "reverseInPlace i j points = points"
      by (subst reverseInPlace.simps) simp
    moreover have "nat (i + j - int k) = k" if "i \<le> int k" "int k \<le> j" for k
      using that False by linarith
    ultimately show ?thesis by simp
  next
    case True
    let ?ys = "points[nat i := points ! nat j, nat j := points ! nat i]"
    have unfold: "reverseInPlace i j points = reverseInPlace (i + 1) (j - 1) ?ys"
      by (subst reverseInPlace.simps) (simp add: True)
    have len: "length ?ys = length points" by simp
    from "1.prems" have p: "0 \<le> i + 1" "j - 1 < int (length ?ys)" by simp_all
    note ih = "1.IH" [OF True p]
    have ni: "nat i < length points" and nj: "nat j < length points" and ne: "nat i \<noteq> nat j"
      using True "1.prems" by linarith+
    show ?thesis
    proof (intro conjI allI impI)
      show "length (reverseInPlace i j points) = length points"
        using ih len unfold by simp
    next
      fix k assume k: "k < length points"
      with ih len have r: "reverseInPlace (i + 1) (j - 1) ?ys ! k =
          (if i + 1 \<le> int k \<and> int k \<le> j - 1 then ?ys ! nat (i + 1 + (j - 1) - int k)
           else ?ys ! k)"
        by simp
      consider (inner) "i + 1 \<le> int k" "int k \<le> j - 1" | (left) "int k = i" | (right) "int k = j"
        | (outer) "int k < i \<or> j < int k"
        by linarith
      then show "reverseInPlace i j points ! k =
          (if i \<le> int k \<and> int k \<le> j then points ! nat (i + j - int k) else points ! k)"
      proof cases
        case inner
        then have a: "nat (i + 1 + (j - 1) - int k) = nat (i + j - int k)" by simp
        have "nat (i + j - int k) \<noteq> nat i" "nat (i + j - int k) \<noteq> nat j"
          using inner "1.prems" by linarith+
        with inner show ?thesis unfolding unfold r a by simp
      next
        case left
        then have k': "k = nat i" by simp
        have "\<not> (i + 1 \<le> int k)" using left by simp
        then show ?thesis unfolding unfold r using left ne ni nj True
          by (simp add: k' nth_list_update)
      next
        case right
        then have k': "k = nat j" by simp
        have "\<not> (int k \<le> j - 1)" using right by simp
        then show ?thesis unfolding unfold r using right ne ni nj True
          by (simp add: k' nth_list_update)
      next
        case outer
        then have "k \<noteq> nat i" "k \<noteq> nat j" using "1.prems" True by linarith+
        moreover from outer have "\<not> (i + 1 \<le> int k \<and> int k \<le> j - 1)" by linarith
        moreover from outer have "\<not> (i \<le> int k \<and> int k \<le> j)" by linarith
        ultimately show ?thesis unfolding unfold r by (simp only: if_False) simp
      qed
    qed
  qed
qed

lemma reverseInPlace_rev: "reverseInPlace 0 (int (length xs) - 1) xs = rev xs"
proof (rule nth_equalityI)
  show "length (reverseInPlace 0 (int (length xs) - 1) xs) = length (rev xs)"
    using reverseInPlace_nth [of 0 "int (length xs) - 1" xs] by simp
next
  fix k assume "k < length (reverseInPlace 0 (int (length xs) - 1) xs)"
  then have k: "k < length xs"
    using reverseInPlace_nth [of 0 "int (length xs) - 1" xs] by simp
  then have "nat (int (length xs) - 1 - int k) = length xs - Suc k" by linarith
  with k show "reverseInPlace 0 (int (length xs) - 1) xs ! k = rev xs ! k"
    using reverseInPlace_nth [of 0 "int (length xs) - 1" xs] by (simp add: rev_nth)
qed

lemma Trend_result:
  "fst (Trend limit w) =
     (case faults w 0 of
        Some e \<Rightarrow> ([], Some e)
      | None \<Rightarrow>
          if limit < 0 then ([], Some LimitRejected)
          else (rev (take (nat limit) (orderByCreatedAtDesc (metrics_snapshot w))), None))"
  by (simp add: Trend_def dbCall_def pop_def limitRows_def reverseInPlace_rev
      del: length_take split: option.splits)

lemma Trend_empty:
  "faults w 0 = None \<Longrightarrow> metrics_snapshot w = [] \<Longrightarrow> 0 \<le> limit \<Longrightarrow>
   Trend limit w = (([], None), w\<lparr>faults := \<lambda>n. faults w (Suc n)\<rparr>)"
  using reverseInPlace_rev [of "[] :: Metrics list"]
  by (simp add: Trend_def dbCall_def pop_def limitRows_def orderByCreatedAtDesc_def)

text \<open>
  Claim C3. \<open>Trend\<close> returns without an error exactly when the query is executed and the
  limit is not negative (the engine rejects a negative \<open>LIMIT\<close>). Whenever it returns
  without an error, for every store state and every limit, the points are the first
  \<open>limit\<close> rows of the table in descending \<open>created_at\<close> order, reversed: exactly
  \<open>min limit n\<close> points for a table of \<open>n\<close> rows, in non-decreasing \<open>CreatedAt\<close> order. The
  descending order is a rearrangement of all the rows of the table.
\<close>

theorem Trend_most_recent_ascending:
  "(snd (fst (Trend limit w)) = None \<longleftrightarrow> faults w 0 = None \<and> 0 \<le> limit) \<and>
   (snd (fst (Trend limit w)) = None \<longrightarrow>
      fst (fst (Trend limit w)) =
        rev (take (nat limit) (orderByCreatedAtDesc (metrics_snapshot w))) \<and>
      int (length (fst (fst (Trend limit w)))) = min limit (int (length (metrics_snapshot w))) \<and>
      sorted (map CreatedAt (fst (fst (Trend limit w)))) \<and>
      mset (orderByCreatedAtDesc (metrics_snapshot w)) = mset (metrics_snapshot w) \<and>
      sorted (rev (map CreatedAt (orderByCreatedAtDesc (metrics_snapshot w)))))"
proof (intro conjI impI)
  show "snd (fst (Trend limit w)) = None \<longleftrightarrow> faults w 0 = None \<and> 0 \<le> limit"
    by (simp add: Trend_result split: option.splits)
next
  assume ok: "snd (fst (Trend limit w)) = None"
  then have f: "faults w 0 = None" and l: "0 \<le> limit"
    by (simp_all add: Trend_result split: option.splits if_splits)
  then show t: "fst (fst (Trend limit w)) =
      rev (take (nat limit) (orderByCreatedAtDesc (metrics_snapshot w)))"
    by (simp add: Trend_result)
  from l show "int (length (fst (fst (Trend limit w)))) =
      min limit (int (length (metrics_snapshot w)))"
    unfolding t by (auto simp add: length_orderByCreatedAtDesc min_def)
  show "sorted (map CreatedAt (fst (fst (Trend limit w))))"
    unfolding t by (rule ascending_rev_take)
  show "mset (orderByCreatedAtDesc (metrics_snapshot w)) = mset (metrics_snapshot w)"
    by (rule mset_orderByCreatedAtDesc)
  show "sorted (rev (map CreatedAt (orderByCreatedAtDesc (metrics_snapshot w))))"
    by (rule descending_orderByCreatedAtDesc)
qed

theorem Trend_most_recent_ascending_witness:
  "fst (Trend 2 (storedWorld [snapshotAt 30, snapshotAt 10, snapshotAt 20])) =
     ([snapshotAt 20, snapshotAt 30], None) \<and>
   fst (Trend 5 (storedWorld [snapshotAt 30, snapshotAt 10, snapshotAt 20])) =
     ([snapshotAt 10, snapshotAt 20, snapshotAt 30], None)"
proof -
  let ?w = "storedWorld [snapshotAt 30, snapshotAt 10, snapshotAt 20]"
  have f: "faults ?w 0 = None"
    by (simp add: storedWorld_def emptyWorld_def always_def)
  have o: "orderByCreatedAtDesc (metrics_snapshot ?w) =
      [snapshotAt 30, snapshotAt 20, snapshotAt 10]"
    by (simp add: storedWorld_def orderByCreatedAtDesc_def snapshotAt_def)
  from Trend_most_recent_ascending [of 2 ?w] f
  have "snd (fst (Trend 2 ?w)) = None \<and> fst (fst (Trend 2 ?w)) = [snapshotAt 20, snapshotAt 30]"
    by (simp add: o eval_nat_numeral)
  moreover from Trend_most_recent_ascending [of 5 ?w] f
  have "snd (fst (Trend 5 ?w)) = None \<and>
      fst (fst (Trend 5 ?w)) = [snapshotAt 10, snapshotAt 20, snapshotAt 30]"
    by (simp add: o eval_nat_numeral)
  ultimately show ?thesis by (simp add: prod_eq_iff)
qed

section \<open>The insight synthesizer\<close>

lemma lowerByte_code: "isUpperByte c \<Longrightarrow> (of_char (lowerByte c) :: nat) = of_char c + 32"
  by (simp add: lowerByte_def isUpperByte_def)

lemma lowerByte_not_upper: "\<not> isUpperByte (lowerByte c)"
  by (cases "isUpperByte c")
    (simp_all add: lowerByte_code [unfolded lowerByte_def] lowerByte_def isUpperByte_def)

lemma lowerByte_idem: "lowerByte (lowerByte c) = lowerByte c"
  using lowerByte_not_upper [of c] by (simp add: lowerByte_def)

lemma sameLetter_lower: "sameLetter a b \<Longrightarrow> lowerByte b = lowerByte a"
  unfolding sameLetter_def by (auto simp: lowerByte_idem)

lemma sameLetter_ascii:
  "sameLetter a b \<Longrightarrow> (of_char a :: nat) < 128 \<Longrightarrow> (of_char b :: nat) < 128"
  unfolding sameLetter_def by (auto simp: lowerByte_def isUpperByte_def)

lemma caseVariant_ToLower:
  assumes "isASCII k" and "caseVariant k k'"
  shows "ToLower ul k' = ToLower ul k"
proof -
  from assms(2) have "list_all2 sameLetter k k'" by (simp add: caseVariant_def)
  then have "list_all (\<lambda>c. (of_char c :: nat) < 128) k \<longrightarrow>
      list_all (\<lambda>c. (of_char c :: nat) < 128) k' \<and> map lowerByte k' = map lowerByte k"
    by (induction rule: list_all2_induct) (auto dest: sameLetter_lower sameLetter_ascii)
  with assms(1) show ?thesis by (simp add: ToLower_def isASCII_def)
qed

text \<open>
  Claim C5. For every key \<open>k\<close> and snapshot \<open>s\<close>, \<open>buildMetricInsight\<close> returns the same title
  and message for \<open>k\<close> and for every key that \<open>strings.ToLower\<close> folds to the same string;
  the case variants of an ASCII key are such keys (\<open>revenue\<close> and \<open>REVENUE\<close>). A key that
  folds to none of \<open>revenue\<close>, \<open>growth\<close>, \<open>sentiment\<close>, \<open>backlog\<close> gets the fallback title and
  message. The function has no error result: it returns a title and a message for every
  key. All of this holds whatever the Unicode tables \<open>ul\<close> map a non-ASCII key to.
\<close>

theorem buildMetricInsight_case_insensitive:
  "(ToLower ul k' = ToLower ul k \<longrightarrow>
      buildMetricInsight ul k' s = buildMetricInsight ul k s) \<and>
   (isASCII k \<and> caseVariant k k' \<longrightarrow>
      buildMetricInsight ul k' s = buildMetricInsight ul k s) \<and>
   (ToLower ul k \<noteq> ''revenue'' \<and> ToLower ul k \<noteq> ''growth'' \<and>
    ToLower ul k \<noteq> ''sentiment'' \<and> ToLower ul k \<noteq> ''backlog'' \<longrightarrow>
      buildMetricInsight ul k s = (fallbackTitle, fallbackMessage))"
  using caseVariant_ToLower [of k k' ul] by (simp add: buildMetricInsight_def)

theorem buildMetricInsight_case_insensitive_witness:
  "isASCII ''revenue'' \<and> caseVariant ''revenue'' ''REVENUE'' \<and>
   buildMetricInsight (\<lambda>s. s) ''REVENUE'' zeroMetrics =
     buildMetricInsight (\<lambda>s. s) ''revenue'' zeroMetrics \<and>
   buildMetricInsight (\<lambda>s. s) ''REVENUE'' zeroMetrics = (revenueTitle, revenueMessage) \<and>
   buildMetricInsight (\<lambda>s. s) ''margin'' zeroMetrics = (fallbackTitle, fallbackMessage)"
  using buildMetricInsight_case_insensitive
      [of "\<lambda>s. s" "''REVENUE''" "''revenue''" zeroMetrics]
    buildMetricInsight_case_insensitive [of "\<lambda>s. s" "''margin''" "''margin''" zeroMetrics]
  by (simp add: isASCII_def caseVariant_def sameLetter_def isUpperByte_def lowerByte_def
      buildMetricInsight_def ToLower_def char_of_def bit_0)

section \<open>The request layer\<close>

subsection \<open>Latest metrics\<close>

lemma handleLatestMetrics_empty:
  assumes "metrics_snapshot w = []" and "faults w 0 = None"
  shows "handleLatestMetrics r w =
     (\<lparr>status = 200,
       body = MetricsResponse
          \<lparr>Revenue = 4.82, Growth = 18.6, Sentiment = 72, Backlog = 128, CreatedAt = clock w 0\<rparr>
          (clock w 1)\<rparr>,
      (case faults w 1 of
         None \<Rightarrow> w\<lparr>metrics_snapshot :=
                    [\<lparr>Revenue = 4.82, Growth = 18.6, Sentiment = 72, Backlog = 128,
                      CreatedAt = clock w 0\<rparr>]\<rparr>
       | Some e \<Rightarrow> w\<lparr>logs := logs w @ [(''seed metrics failed: %v'', e)]\<rparr>)
        \<lparr>clock := \<lambda>n. clock w (Suc (Suc n)), faults := \<lambda>n. faults w (Suc (Suc n))\<rparr>)"
  using assms
  by (simp add: handleLatestMetrics_def LatestMetrics_empty IsZero_def zeroMetrics_def
      defaultMetrics_def timeNow_def pop_def InsertMetricsAt_def dbCall_def logPrintf_def
      writeJSON_def split: option.splits)

text \<open>
  Claim C2. When the store holds no snapshot and the read is executed,
  \<open>handleLatestMetrics\<close> answers 200 with the baseline revenue 4.82, growth 18.6,
  sentiment 72 and backlog 128, whatever becomes of the insertion of that seed: when the
  insertion is executed the seed is the one row of the table, when it fails with \<open>e\<close>
  the table stays empty and the failure is logged; the response is the same.
\<close>

theorem handleLatestMetrics_seed_on_empty:
  assumes "metrics_snapshot w = []" and "faults w 0 = None"
  shows "fst (handleLatestMetrics r w) =
     \<lparr>status = 200,
      body = MetricsResponse
         \<lparr>Revenue = 4.82, Growth = 18.6, Sentiment = 72, Backlog = 128, CreatedAt = clock w 0\<rparr>
         (clock w 1)\<rparr> \<and>
    (faults w 1 = None \<longrightarrow>
       metrics_snapshot (snd (handleLatestMetrics r w)) =
         [\<lparr>Revenue = 4.82, Growth = 18.6, Sentiment = 72, Backlog = 128,
           CreatedAt = clock w 0\<rparr>] \<and>
       logs (snd (handleLatestMetrics r w)) = logs w) \<and>
    (faults w 1 = Some e \<longrightarrow>
       metrics_snapshot (snd (handleLatestMetrics r w)) = [] \<and>
       logs (snd (handleLatestMetrics r w)) = logs w @ [(''seed metrics failed: %v'', e)])"
  using assms by (simp add: handleLatestMetrics_empty)

theorem handleLatestMetrics_seed_on_empty_witness:
  "fst (handleLatestMetrics plainRequest emptyWorld) =
     \<lparr>status = 200,
      body = MetricsResponse
         \<lparr>Revenue = 4.82, Growth = 18.6, Sentiment = 72, Backlog = 128, CreatedAt = 1000\<rparr>
         1000\<rparr> \<and>
   metrics_snapshot (snd (handleLatestMetrics plainRequest emptyWorld)) =
     [\<lparr>Revenue = 4.82, Growth = 18.6, Sentiment = 72, Backlog = 128, CreatedAt = 1000\<rparr>] \<and>
   fst (handleLatestMetrics plainRequest
          (emptyWorld\<lparr>faults := failAt 1 (Err ''bad connection'')\<rparr>)) =
     \<lparr>status = 200,
      body = MetricsResponse
         \<lparr>Revenue = 4.82, Growth = 18.6, Sentiment = 72, Backlog = 128, CreatedAt = 1000\<rparr>
         1000\<rparr> \<and>
   metrics_snapshot (snd (handleLatestMetrics plainRequest
          (emptyWorld\<lparr>faults := failAt 1 (Err ''bad connection'')\<rparr>))) = [] \<and>
   logs (snd (handleLatestMetrics plainRequest
          (emptyWorld\<lparr>faults := failAt 1 (Err ''bad connection'')\<rparr>))) =
     [(''seed metrics failed: %v'', Err ''bad connection'')]"
  using handleLatestMetrics_seed_on_empty [of emptyWorld plainRequest "Err ''bad connection''"]
    handleLatestMetrics_seed_on_empty
      [of "emptyWorld\<lparr>faults := failAt 1 (Err ''bad connection'')\<rparr>" plainRequest
        "Err ''bad connection''"]
  by (simp add: emptyWorld_def always_def failAt_def)

subsection \<open>Latest insights\<close>

lemma latestInsightsLimit_positive: "1 \<le> latestInsightsLimit r"
  by (simp add: latestInsightsLimit_def Let_def)

lemma handleLatestInsights_stored:
  assumes "faults w 0 = None" and "insights w \<noteq> []"
  shows "fst (handleLatestInsights r w) =
     \<lparr>status = 200,
      body = InsightsResponse
               (take (nat (latestInsightsLimit r)) (orderInsightsDesc (insights w)))\<rparr>"
proof -
  have "length (orderInsightsDesc (insights w)) = length (insights w)"
    by (simp add: orderInsightsDesc_def)
  with assms(2) have "orderInsightsDesc (insights w) \<noteq> []"
    by auto
  moreover have "0 < nat (latestInsightsLimit r)"
    using latestInsightsLimit_positive [of r] by simp
  ultimately have "take (nat (latestInsightsLimit r)) (orderInsightsDesc (insights w)) \<noteq> []"
    by (cases "orderInsightsDesc (insights w)") (auto simp add: take_Cons')
  moreover have "\<not> latestInsightsLimit r < 0"
    using latestInsightsLimit_positive [of r] by simp
  ultimately show ?thesis
    using assms(1)
    by (simp add: handleLatestInsights_def LatestInsights_def dbCall_def pop_def limitRows_def
        writeJSON_def)
qed

text \<open>
  Claim C7, as amended. The limit \<open>handleLatestInsights\<close> queries the store with is the
  requested \<open>N\<close> when \<open>N \<ge> 1\<close>, and the default 6 in every other case: without a
  \<open>limit\<close> parameter, with one that \<open>strconv.Atoi\<close> does not parse, and with a requested
  \<open>N\<close> below 1. When the read is executed and the store holds insights, the response
  holds that many of the most recent insights (all of them if there are fewer).
\<close>

theorem latestInsightsLimit_cases:
  "(Get (query r) ''limit'' = [] \<longrightarrow> latestInsightsLimit r = 6) \<and>
   (Atoi (Get (query r) ''limit'') = None \<longrightarrow> latestInsightsLimit r = 6) \<and>
   (Atoi (Get (query r) ''limit'') = Some n \<and> 1 \<le> n \<longrightarrow> latestInsightsLimit r = n) \<and>
   (Atoi (Get (query r) ''limit'') = Some n \<and> n < 1 \<longrightarrow> latestInsightsLimit r = 6) \<and>
   (faults w 0 = None \<and> insights w \<noteq> [] \<longrightarrow>
      fst (handleLatestInsights r w) =
        \<lparr>status = 200,
         body = InsightsResponse
                  (take (nat (latestInsightsLimit r)) (orderInsightsDesc (insights w)))\<rparr>)"
  using handleLatestInsights_stored [of w r]
  by (auto simp add: latestInsightsLimit_def parseQueryInt_def Let_def Atoi_def)

theorem latestInsightsLimit_cases_witness:
  "latestInsightsLimit plainRequest = 6 \<and>
   latestInsightsLimit (queryRequest ''limit'' ''abc'') = 6 \<and>
   latestInsightsLimit (queryRequest ''limit'' ''3'') = 3 \<and>
   latestInsightsLimit (queryRequest ''limit'' ''-2'') = 6 \<and>
   fst (handleLatestInsights (queryRequest ''limit'' ''1'') twoInsightsWorld) =
     \<lparr>status = 200, body = InsightsResponse [insightAt 2 20]\<rparr>"
  using latestInsightsLimit_cases [of plainRequest 0 emptyWorld]
    latestInsightsLimit_cases [of "queryRequest ''limit'' ''abc''" 0 emptyWorld]
    latestInsightsLimit_cases [of "queryRequest ''limit'' ''3''" 3 emptyWorld]
    latestInsightsLimit_cases [of "queryRequest ''limit'' ''-2''" "-2" emptyWorld]
    latestInsightsLimit_cases [of "queryRequest ''limit'' ''1''" 1 twoInsightsWorld]
  by (simp add: Get_def queryRequest_def plainRequest_def Atoi_def isDigit_def
      digitsValue_def twoInsightsWorld_def emptyWorld_def always_def orderInsightsDesc_def
      insightAt_def)

text \<open>
  The claim as stated fails: a request for \<open>limit=0\<close> is answered with the limit 6, not
  with the floor 1, and a store of two insights answers with both.
\<close>

theorem latestInsightsLimit_zero_counterexample:
  "Atoi ''0'' = Some 0 \<and> latestInsightsLimit (queryRequest ''limit'' ''0'') = 6 \<and>
   latestInsightsLimit (queryRequest ''limit'' ''0'') \<noteq> 1 \<and>
   fst (handleLatestInsights (queryRequest ''limit'' ''0'') twoInsightsWorld) =
     \<lparr>status = 200, body = InsightsResponse [insightAt 2 20, insightAt 1 10]\<rparr>"
  by (simp add: latestInsightsLimit_def parseQueryInt_def Get_def queryRequest_def
      Atoi_def isDigit_def digitsValue_def handleLatestInsights_def LatestInsights_def
      dbCall_def pop_def limitRows_def orderInsightsDesc_def twoInsightsWorld_def
      emptyWorld_def always_def insightAt_def writeJSON_def)

subsection \<open>Trend\<close>

lemma seedTrendLoop_closed:
  "i \<le> 12 \<Longrightarrow> seedTrendLoop i base points w =
     (points @ map (\<lambda>j. seedPoint base (i + int j) (clock w j)) [0..<nat (12 - i)],
      w\<lparr>clock := \<lambda>n. clock w (n + nat (12 - i))\<rparr>)"
proof (induction i base points w rule: seedTrendLoop.induct)
  case (1 i base points w)
  show ?case
  proof (cases "i < 12")
    case True
    then have n: "nat (12 - i) = Suc (nat (12 - (i + 1)))" by simp
    have le: "i + 1 \<le> 12" using True by simp
    define now where "now = clock w 0"
    define w1 where "w1 = w\<lparr>clock := \<lambda>n. clock w (Suc n)\<rparr>"
    have tn: "timeNow w = (now, w1)"
      by (simp add: timeNow_def pop_def now_def w1_def)
    note ih = "1.IH" [OF True refl tn [symmetric] le]
    have "seedTrendLoop i base points w =
        seedTrendLoop (i + 1) base
          (points @ [\<lparr>Revenue = (55 + of_int i * 1.8 + (of_int i / 1.8) * 2.0) / 10,
                       Growth = Growth base, Sentiment = Sentiment base,
                       Backlog = Backlog base, CreatedAt = Add now ((i - 12) * Minute)\<rparr>]) w1"
      by (subst seedTrendLoop.simps) (simp add: True tn)
    also have "\<dots> =
        (points @ map (\<lambda>j. seedPoint base (i + int j) (clock w j)) [0..<nat (12 - i)],
         w\<lparr>clock := \<lambda>n. clock w (n + nat (12 - i))\<rparr>)"
      unfolding ih n map_upt_Suc
      by (simp add: seedPoint_def Add_def now_def w1_def add.assoc)
    finally show ?thesis .
  next
    case False
    with "1.prems" have "i = 12" by simp
    then show ?thesis by (subst seedTrendLoop.simps) simp
  qed
qed

lemma seedTrendMetrics_closed:
  "seedTrendMetrics w =
     (map (\<lambda>j. seedPoint \<lparr>Revenue = 4.82, Growth = 18.6, Sentiment = 72, Backlog = 128,
                             CreatedAt = clock w 0\<rparr> (int j) (clock w (Suc j))) [0..<12],
      w\<lparr>clock := \<lambda>n. clock w (n + 13)\<rparr>)"
  by (simp add: seedTrendMetrics_def defaultMetrics_def timeNow_def pop_def seedTrendLoop_closed
      add.commute)

lemma handleTrend_empty:
  assumes "metrics_snapshot w = []" and "faults w 0 = None"
  shows "fst (handleTrend r w) =
     \<lparr>status = 200, body = TrendResponse (map (rampPoint (clock w)) [0..<12])\<rparr>"
proof -
  have "0 \<le> (if parseQueryInt r ''window'' 12 < 3 then 3 else parseQueryInt r ''window'' 12)"
    by simp
  from Trend_empty [OF assms(2) assms(1) this] show ?thesis
    by (simp add: handleTrend_def Let_def seedTrendMetrics_closed writeJSON_def seedPoint_def
        rampPoint_def o_def algebra_simps)
qed

lemma clock_ramp_increasing:
  fixes c :: "nat \<Rightarrow> int"
  assumes "\<And>n. c n < c (Suc n) + M" and "i < j"
  shows "c i + int i * M < c j + int j * M"
proof -
  have "\<And>n. c n + int n * M < c (Suc n) + int (Suc n) * M"
    using assms(1) by (simp add: algebra_simps)
  from lift_Suc_mono_less [of "\<lambda>n. c n + int n * M", OF this assms(2)] show ?thesis .
qed

text \<open>
  Claim C8. When the store holds no snapshot and the read is executed, \<open>handleTrend\<close>
  answers 200 with exactly 12 points, whatever window the request asks for. Point \<open>i\<close>
  (from 0 to 11) has the revenue \<open>(55 + i * 1.8 + (i / 1.8) * 2.0) / 10\<close> and the
  timestamp \<open>now - (12 - i)\<close> minutes, where \<open>now\<close> is the clock reading of round \<open>i\<close> of the
  seeding loop (reading \<open>i + 1\<close> of the request). The timestamps increase strictly when
  no clock reading is a minute or more before the reading it follows, as is the case for
  a clock that never runs backwards.
\<close>

theorem handleTrend_seed_ramp:
  assumes "metrics_snapshot w = []" and "faults w 0 = None"
  shows "\<exists>points. fst (handleTrend r w) = \<lparr>status = 200, body = TrendResponse points\<rparr> \<and>
     length points = 12 \<and>
     (\<forall>i<12. TrendRevenue (points ! i) = (55 + real i * 1.8 + (real i / 1.8) * 2.0) / 10 \<and>
              Timestamp (points ! i) = clock w (Suc i) - (12 - int i) * Minute) \<and>
     ((\<forall>n. clock w n < clock w (Suc n) + Minute) \<longrightarrow>
        sorted_wrt (<) (map Timestamp points))"
proof (intro exI conjI)
  show "fst (handleTrend r w) =
      \<lparr>status = 200, body = TrendResponse (map (rampPoint (clock w)) [0..<12])\<rparr>"
    using assms by (rule handleTrend_empty)
  show "length (map (rampPoint (clock w)) [0..<12]) = 12" by simp
  show "\<forall>i<12. TrendRevenue (map (rampPoint (clock w)) [0..<12] ! i) =
        (55 + real i * 1.8 + (real i / 1.8) * 2.0) / 10 \<and>
      Timestamp (map (rampPoint (clock w)) [0..<12] ! i) =
        clock w (Suc i) - (12 - int i) * Minute"
    by (simp add: rampPoint_def)
  show "(\<forall>n. clock w n < clock w (Suc n) + Minute) \<longrightarrow>
      sorted_wrt (<) (map Timestamp (map (rampPoint (clock w)) [0..<12]))"
  proof
    assume mono: "\<forall>n. clock w n < clock w (Suc n) + Minute"
    have "Timestamp (rampPoint (clock w) i) < Timestamp (rampPoint (clock w) j)"
      if "i < j" for i j
      using clock_ramp_increasing [of "clock w" Minute "Suc i" "Suc j"] mono that
      by (simp add: rampPoint_def algebra_simps)
    then show "sorted_wrt (<) (map Timestamp (map (rampPoint (clock w)) [0..<12]))"
      by (simp add: sorted_wrt_iff_nth_less)
  qed
qed

theorem handleTrend_seed_ramp_witness:
  "\<exists>points. fst (handleTrend plainRequest emptyWorld) =
       \<lparr>status = 200, body = TrendResponse points\<rparr> \<and>
     length points = 12 \<and> TrendRevenue (points ! 0) = 5.5 \<and>
     Timestamp (points ! 0) = 1000 - 12 * Minute \<and>
     sorted_wrt (<) (map Timestamp points)"
proof -
  have e: "metrics_snapshot emptyWorld = []" and f: "faults emptyWorld 0 = None"
    by (simp_all add: emptyWorld_def always_def)
  have c: "\<forall>n. clock emptyWorld n < clock emptyWorld (Suc n) + Minute"
    by (simp add: emptyWorld_def always_def Minute_def)
  from handleTrend_seed_ramp [OF e f, of plainRequest] c
  obtain points where p: "fst (handleTrend plainRequest emptyWorld) =
       \<lparr>status = 200, body = TrendResponse points\<rparr>" "length points = 12"
     "\<forall>i<12. TrendRevenue (points ! i) = (55 + real i * 1.8 + (real i / 1.8) * 2.0) / 10 \<and>
              Timestamp (points ! i) = clock emptyWorld (Suc i) - (12 - int i) * Minute"
     "sorted_wrt (<) (map Timestamp points)"
    by blast
  from p(3) [THEN spec, of 0]
  have "TrendRevenue (points ! 0) = 5.5 \<and> Timestamp (points ! 0) = 1000 - 12 * Minute"
    by (simp add: emptyWorld_def always_def)
  with p(1,2,4) show ?thesis by blast
qed

subsection \<open>On-demand simulation\<close>

lemma handleSimulateMetrics_read_fault:
  "faults w 0 = Some e \<Longrightarrow>
   fst (handleSimulateMetrics r w) = \<lparr>status = 500, body = ErrorBody e\<rparr>"
  by (simp add: handleSimulateMetrics_def LatestMetrics_fault writeError_def writeJSON_def)

lemma handleSimulateMetrics_write_fault:
  assumes "faults w 0 = None" and "faults w 1 = Some e"
  shows "fst (handleSimulateMetrics r w) = \<lparr>status = 500, body = ErrorBody e\<rparr>"
  using assms
  by (simp add: handleSimulateMetrics_def LatestMetrics_nonempty defaultMetrics_def timeNow_def
      pop_def case_prod_beta simulateMetrics_world InsertMetrics_def InsertMetricsAt_def
      dbCall_def writeError_def writeJSON_def)

lemma handleSimulateMetrics_ok:
  assumes "status (fst (handleSimulateMetrics r w)) = 200"
  shows "faults w 0 = None \<and> faults w 1 = None"
proof (cases "faults w 0")
  case (Some e)
  with assms show ?thesis by (simp add: handleSimulateMetrics_read_fault)
next
  case None
  show ?thesis
  proof (cases "faults w 1")
    case (Some e)
    with None assms show ?thesis by (simp add: handleSimulateMetrics_write_fault)
  next
    case n: None
    with None show ?thesis by simp
  qed
qed

lemma handleSimulateMetrics_run:
  assumes "faults w 0 = None" and "faults w 1 = None"
    and "orderByCreatedAtDesc (metrics_snapshot w) = prev # rest"
    and "k = (if IsZero (CreatedAt prev) then 1 else 0)"
    and "base = (if IsZero (CreatedAt prev)
                 then \<lparr>Revenue = 4.82, Growth = 18.6, Sentiment = 72, Backlog = 128,
                        CreatedAt = clock w 0\<rparr>
                 else prev)"
    and "nxt = fst (simulateMetrics base (w\<lparr>clock := \<lambda>n. clock w (n + k)\<rparr>))"
  shows "fst (handleSimulateMetrics r w) = \<lparr>status = 200, body = MetricsData nxt\<rparr> \<and>
     metrics_snapshot (snd (handleSimulateMetrics r w)) = metrics_snapshot w @ [nxt]"
  using assms
  by (simp add: handleSimulateMetrics_def LatestMetrics_row defaultMetrics_def timeNow_def
      pop_def case_prod_beta simulateMetrics_world simulateMetrics_fields InsertMetrics_def
      InsertMetricsAt_def dbCall_def writeJSON_def)

text \<open>
  Claim C9, as amended. For every store that holds a snapshot, a
  \<open>handleSimulateMetrics\<close> that answers 200 returns a new snapshot whose fields are in
  the ranges (revenue in [3.9, 6.2], growth in [10, 28], sentiment in [58, 90], backlog
  in [95, 180]), appends exactly that snapshot to the table, and stamps it with the
  clock reading the simulator takes: the first reading of the request, or the second
  when the latest snapshot has the zero time and the baseline took the first. So the
  new \<open>CreatedAt\<close> is after that of the previously latest snapshot whenever that reading
  is.
\<close>

theorem handleSimulateMetrics_success:
  assumes "metrics_snapshot w \<noteq> []" and "status (fst (handleSimulateMetrics r w)) = 200"
  shows "\<exists>prev rest next.
      orderByCreatedAtDesc (metrics_snapshot w) = prev # rest \<and>
      body (fst (handleSimulateMetrics r w)) = MetricsData next \<and>
      3.9 \<le> Revenue next \<and> Revenue next \<le> 6.2 \<and>
      10 \<le> Growth next \<and> Growth next \<le> 28 \<and>
      58 \<le> Sentiment next \<and> Sentiment next \<le> 90 \<and>
      95 \<le> Backlog next \<and> Backlog next \<le> 180 \<and>
      metrics_snapshot (snd (handleSimulateMetrics r w)) = metrics_snapshot w @ [next] \<and>
      CreatedAt next = clock w (if IsZero (CreatedAt prev) then 1 else 0) \<and>
      (CreatedAt prev < clock w (if IsZero (CreatedAt prev) then 1 else 0) \<longrightarrow>
         CreatedAt prev < CreatedAt next)"
proof -
  from assms(2) have f: "faults w 0 = None" "faults w 1 = None"
    using handleSimulateMetrics_ok by blast+
  from assms(1) have "orderByCreatedAtDesc (metrics_snapshot w) \<noteq> []"
    using length_orderByCreatedAtDesc [of "metrics_snapshot w"] by auto
  then obtain prev rest where o: "orderByCreatedAtDesc (metrics_snapshot w) = prev # rest"
    by (cases "orderByCreatedAtDesc (metrics_snapshot w)") auto
  define k :: nat where "k = (if IsZero (CreatedAt prev) then 1 else 0)"
  define base where "base = (if IsZero (CreatedAt prev)
                  then \<lparr>Revenue = 4.82, Growth = 18.6, Sentiment = 72, Backlog = 128,
                         CreatedAt = clock w 0\<rparr>
                  else prev)"
  define nxt where "nxt = fst (simulateMetrics base (w\<lparr>clock := \<lambda>n. clock w (n + k)\<rparr>))"
  note run = handleSimulateMetrics_run [OF f o k_def base_def nxt_def, of r]
  have c: "CreatedAt nxt = clock w (if IsZero (CreatedAt prev) then 1 else 0)"
    by (simp add: nxt_def simulateMetrics_fields k_def)
  have in_range: "3.9 \<le> Revenue nxt \<and> Revenue nxt \<le> 6.2 \<and>
      10 \<le> Growth nxt \<and> Growth nxt \<le> 28 \<and>
      58 \<le> Sentiment nxt \<and> Sentiment nxt \<le> 90 \<and>
      95 \<le> Backlog nxt \<and> Backlog nxt \<le> 180"
    unfolding nxt_def by (rule simulateMetrics_ranges)
  from run have "body (fst (handleSimulateMetrics r w)) = MetricsData nxt"
    and "metrics_snapshot (snd (handleSimulateMetrics r w)) = metrics_snapshot w @ [nxt]"
    by simp_all
  with o c in_range show ?thesis
    by (intro exI [of _ prev] exI [of _ rest] exI [of _ nxt]) simp
qed

theorem handleSimulateMetrics_success_witness:
  "metrics_snapshot (storedWorld [snapshotAt 500]) \<noteq> [] \<and>
   status (fst (handleSimulateMetrics plainRequest (storedWorld [snapshotAt 500]))) = 200 \<and>
   (\<exists>next. body (fst (handleSimulateMetrics plainRequest (storedWorld [snapshotAt 500]))) =
        MetricsData next \<and>
      3.9 \<le> Revenue next \<and> Revenue next \<le> 6.2 \<and> CreatedAt next = 1000 \<and>
      500 < CreatedAt next \<and>
      metrics_snapshot (snd (handleSimulateMetrics plainRequest (storedWorld [snapshotAt 500]))) =
        [snapshotAt 500, next])"
proof -
  let ?w = "storedWorld [snapshotAt 500]"
  have n: "metrics_snapshot ?w \<noteq> []"
    by (simp add: storedWorld_def)
  have f: "faults ?w 0 = None" "faults ?w 1 = None"
    by (simp_all add: storedWorld_def emptyWorld_def always_def)
  have o: "orderByCreatedAtDesc (metrics_snapshot ?w) = snapshotAt 500 # []"
    by (simp add: storedWorld_def orderByCreatedAtDesc_def)
  have s: "status (fst (handleSimulateMetrics plainRequest ?w)) = 200"
    using handleSimulateMetrics_run [OF f o refl refl refl, of plainRequest] by simp
  from handleSimulateMetrics_success [OF n s] o
  obtain nxt where
    "body (fst (handleSimulateMetrics plainRequest ?w)) = MetricsData nxt"
    "3.9 \<le> Revenue nxt" "Revenue nxt \<le> 6.2"
    "metrics_snapshot (snd (handleSimulateMetrics plainRequest ?w)) = metrics_snapshot ?w @ [nxt]"
    "CreatedAt nxt = clock ?w (if IsZero (CreatedAt (snapshotAt 500)) then 1 else 0)"
    by auto
  then have "body (fst (handleSimulateMetrics plainRequest ?w)) = MetricsData nxt \<and>
      3.9 \<le> Revenue nxt \<and> Revenue nxt \<le> 6.2 \<and> CreatedAt nxt = 1000 \<and>
      500 < CreatedAt nxt \<and>
      metrics_snapshot (snd (handleSimulateMetrics plainRequest ?w)) = [snapshotAt 500, nxt]"
    by (simp add: storedWorld_def emptyWorld_def always_def snapshotAt_def IsZero_def)
  with n s show ?thesis by blast
qed

text \<open>
  The claim as stated fails: the store holds one snapshot created at 2000 and the clock
  reads 1000; the request succeeds and the new snapshot is stamped 1000, which is not
  after 2000.
\<close>

theorem handleSimulateMetrics_stale_clock_counterexample:
  "metrics_snapshot (storedWorld [snapshotAt 2000]) \<noteq> [] \<and>
   orderByCreatedAtDesc (metrics_snapshot (storedWorld [snapshotAt 2000])) = [snapshotAt 2000] \<and>
   CreatedAt (snapshotAt 2000) = 2000 \<and>
   fst (handleSimulateMetrics plainRequest (storedWorld [snapshotAt 2000])) =
     \<lparr>status = 200,
      body = MetricsData \<lparr>Revenue = 5.018, Growth = 20.08, Sentiment = 80, Backlog = 100,
                          CreatedAt = 1000\<rparr>\<rparr> \<and>
   \<not> (2000 :: time) < 1000"
  by (simp add: storedWorld_def snapshotAt_def emptyWorld_def always_def
      handleSimulateMetrics_def LatestMetrics_def dbCall_def pop_def orderByCreatedAtDesc_def
      IsZero_def simulateMetrics_def Float64_def timeNow_def clamp_def toInt_def
      InsertMetrics_def InsertMetricsAt_def writeJSON_def)

section \<open>Absence is the zero time\<close>

text \<open>The scheduler runs the two tick bodies, one per event, and returns at \<open>Done\<close>.\<close>

lemma StartSimulation_ticks:
  "StartSimulation [MetricsTicker] w = metricsTick w \<and>
   StartSimulation [InsightTicker] w = insightTick w \<and>
   StartSimulation (Done # events) w = w"
  by simp

text \<open>
  Each consumer of \<open>LatestMetrics\<close>, run on a store whose latest snapshot has the zero
  time, against the same consumer run on the emptied store.
\<close>

lemma handleLatestMetrics_zero_time:
  assumes "faults w 0 = None" and "orderByCreatedAtDesc (metrics_snapshot w) = m # rest"
    and "CreatedAt m = 0"
  shows "fst (handleLatestMetrics r w) =
       fst (handleLatestMetrics r (w\<lparr>metrics_snapshot := []\<rparr>)) \<and>
     snd (handleLatestMetrics r w) =
       (snd (handleLatestMetrics r (w\<lparr>metrics_snapshot := []\<rparr>)))
         \<lparr>metrics_snapshot := metrics_snapshot w @
            metrics_snapshot (snd (handleLatestMetrics r (w\<lparr>metrics_snapshot := []\<rparr>)))\<rparr>"
  using assms
  by (cases w)
    (simp add: handleLatestMetrics_def LatestMetrics_def dbCall_def pop_def
      orderByCreatedAtDesc_Nil IsZero_def zeroMetrics_def defaultMetrics_def timeNow_def
      InsertMetricsAt_def logPrintf_def writeJSON_def split: option.splits)

lemma handleSimulateMetrics_zero_time:
  assumes "faults w 0 = None" and "orderByCreatedAtDesc (metrics_snapshot w) = m # rest"
    and "CreatedAt m = 0"
  shows "fst (handleSimulateMetrics r w) =
       fst (handleSimulateMetrics r (w\<lparr>metrics_snapshot := []\<rparr>)) \<and>
     snd (handleSimulateMetrics r w) =
       (snd (handleSimulateMetrics r (w\<lparr>metrics_snapshot := []\<rparr>)))
         \<lparr>metrics_snapshot := metrics_snapshot w @
            metrics_snapshot (snd (handleSimulateMetrics r (w\<lparr>metrics_snapshot := []\<rparr>)))\<rparr>"
  using assms
  by (cases w)
    (simp add: handleSimulateMetrics_def LatestMetrics_def dbCall_def pop_def
      orderByCreatedAtDesc_Nil IsZero_def zeroMetrics_def defaultMetrics_def timeNow_def
      simulateMetrics_def Float64_def InsertMetrics_def
      InsertMetricsAt_def writeError_def writeJSON_def split: option.splits)

lemma handleCreateInsight_zero_time:
  assumes "faults w 0 = None" and "orderByCreatedAtDesc (metrics_snapshot w) = m # rest"
    and "CreatedAt m = 0"
  shows "fst (handleCreateInsight ul r w) =
       fst (handleCreateInsight ul r (w\<lparr>metrics_snapshot := []\<rparr>)) \<and>
     snd (handleCreateInsight ul r w) =
       (snd (handleCreateInsight ul r (w\<lparr>metrics_snapshot := []\<rparr>)))
         \<lparr>metrics_snapshot := metrics_snapshot w @
            metrics_snapshot (snd (handleCreateInsight ul r (w\<lparr>metrics_snapshot := []\<rparr>)))\<rparr>"
  using assms
  by (cases w)
    (simp add: handleCreateInsight_def LatestMetrics_def dbCall_def pop_def
      orderByCreatedAtDesc_Nil IsZero_def zeroMetrics_def defaultMetrics_def timeNow_def
      InsertInsight_def Let_def case_prod_beta writeError_def writeJSON_def
      split: option.splits sum.splits)

lemma metricsTick_zero_time:
  assumes "faults w 0 = None" and "orderByCreatedAtDesc (metrics_snapshot w) = m # rest"
    and "CreatedAt m = 0"
  shows "metricsTick w =
       (metricsTick (w\<lparr>metrics_snapshot := []\<rparr>))
         \<lparr>metrics_snapshot := metrics_snapshot w @
            metrics_snapshot (metricsTick (w\<lparr>metrics_snapshot := []\<rparr>))\<rparr>"
  using assms
  by (cases w)
    (simp add: metricsTick_def LatestMetrics_def dbCall_def pop_def
      orderByCreatedAtDesc_Nil IsZero_def zeroMetrics_def defaultMetrics_def timeNow_def
      simulateMetrics_def Float64_def InsertMetrics_def
      InsertMetricsAt_def logPrintf_def split: option.splits)

lemma insightTick_zero_time:
  assumes "faults w 0 = None" and "orderByCreatedAtDesc (metrics_snapshot w) = m # rest"
    and "CreatedAt m = 0"
  shows "insightTick w =
       (insightTick (w\<lparr>metrics_snapshot := []\<rparr>))
         \<lparr>metrics_snapshot := metrics_snapshot w @
            metrics_snapshot (insightTick (w\<lparr>metrics_snapshot := []\<rparr>))\<rparr>"
  using assms
  by (cases w)
    (simp add: insightTick_def LatestMetrics_def dbCall_def pop_def
      orderByCreatedAtDesc_Nil IsZero_def zeroMetrics_def defaultMetrics_def timeNow_def
      InsertInsight_def Let_def case_prod_beta logPrintf_def split: option.splits)

text \<open>The consumers on a store whose latest snapshot has another time than zero.\<close>

lemma handleLatestMetrics_stored:
  assumes "faults w 0 = None" and "orderByCreatedAtDesc (metrics_snapshot w) = m # rest"
    and "CreatedAt m \<noteq> 0"
  shows "handleLatestMetrics r w =
     (\<lparr>status = 200, body = MetricsResponse m (clock w 0)\<rparr>,
      w\<lparr>clock := \<lambda>n. clock w (Suc n), faults := \<lambda>n. faults w (Suc n)\<rparr>)"
  using assms
  by (cases w)
    (simp add: handleLatestMetrics_def LatestMetrics_def dbCall_def pop_def IsZero_def
      timeNow_def writeJSON_def)

lemma handleSimulateMetrics_stored:
  assumes "faults w 0 = None" and "orderByCreatedAtDesc (metrics_snapshot w) = m # rest"
    and "CreatedAt m \<noteq> 0" and "faults w 1 = None"
  shows "fst (handleSimulateMetrics r w) =
     \<lparr>status = 200, body = MetricsData (fst (simulateMetrics m w))\<rparr>"
  using handleSimulateMetrics_run [OF assms(1) assms(4) assms(2) refl refl refl, of r] assms(3)
  by (simp add: IsZero_def simulateMetrics_fields)

lemma metricsTick_stored:
  assumes "faults w 0 = None" and "orderByCreatedAtDesc (metrics_snapshot w) = m # rest"
    and "CreatedAt m \<noteq> 0" and "faults w 1 = None"
  shows "metrics_snapshot (metricsTick w) = metrics_snapshot w @ [fst (simulateMetrics m w)]"
  using assms
  by (simp add: metricsTick_def LatestMetrics_row IsZero_def case_prod_beta
      simulateMetrics_world simulateMetrics_fields InsertMetrics_def InsertMetricsAt_def
      dbCall_def pop_def)

lemma insightTick_stored:
  assumes "faults w 0 = None" and "orderByCreatedAtDesc (metrics_snapshot w) = m # rest"
    and "CreatedAt m \<noteq> 0" and "faults w 1 = None"
  shows "map Message (insights (insightTick w)) =
     map Message (insights w) @ [buildAutoInsight m]"
  using assms
  by (simp add: insightTick_def LatestMetrics_row IsZero_def InsertInsight_def Let_def
      case_prod_beta dbCall_def pop_def timeNow_def)

lemma handleSimulateMetrics_zero_baseline:
  assumes "faults w 0 = None" and "orderByCreatedAtDesc (metrics_snapshot w) = m # rest"
    and "CreatedAt m = 0" and "faults w 1 = None"
  shows "fst (handleSimulateMetrics r w) =
       \<lparr>status = 200,
        body = MetricsData (fst (simulateMetrics (baseline (clock w 0))
                                   (w\<lparr>clock := \<lambda>n. clock w (Suc n)\<rparr>)))\<rparr> \<and>
     metrics_snapshot (snd (handleSimulateMetrics r w)) =
       metrics_snapshot w @
         [fst (simulateMetrics (baseline (clock w 0)) (w\<lparr>clock := \<lambda>n. clock w (Suc n)\<rparr>))]"
  using handleSimulateMetrics_run [OF assms(1) assms(4) assms(2) refl refl refl, of r] assms(3)
  by (simp add: IsZero_def baseline_def simulateMetrics_fields)

lemma metricsTick_zero_baseline:
  assumes "faults w 0 = None" and "orderByCreatedAtDesc (metrics_snapshot w) = m # rest"
    and "CreatedAt m = 0" and "faults w 1 = None"
  shows "metrics_snapshot (metricsTick w) =
       metrics_snapshot w @
         [fst (simulateMetrics (baseline (clock w 0)) (w\<lparr>clock := \<lambda>n. clock w (Suc n)\<rparr>))]"
  using assms
  by (simp add: metricsTick_def LatestMetrics_row IsZero_def defaultMetrics_def timeNow_def
      baseline_def case_prod_beta simulateMetrics_world simulateMetrics_fields InsertMetrics_def
      InsertMetricsAt_def dbCall_def pop_def)

lemma insightTick_zero_baseline:
  assumes "faults w 0 = None" and "orderByCreatedAtDesc (metrics_snapshot w) = m # rest"
    and "CreatedAt m = 0" and "faults w 1 = None"
  shows "insights (insightTick w) =
       insights w @
         [\<lparr>ID = int (length (insights w)) + 1, Title = advisorTitle,
           Message = buildAutoInsight (baseline (clock w 0)), Source = ''auto'',
           InsightCreatedAt = dbclock w 0\<rparr>]"
  using assms
  by (simp add: insightTick_def LatestMetrics_row IsZero_def defaultMetrics_def baseline_def
      InsertInsight_def Let_def case_prod_beta dbCall_def pop_def timeNow_def)

lemma handleCreateInsight_zero_baseline:
  assumes "faults w 0 = None" and "orderByCreatedAtDesc (metrics_snapshot w) = m # rest"
    and "CreatedAt m = 0" and "faults w 1 = None" and "decoded r = Inr req"
  shows "fst (handleCreateInsight ul r w) =
       \<lparr>status = 200,
        body = InsightData
          \<lparr>ID = int (length (insights w)) + 1,
           Title = fst (buildMetricInsight ul (MetricKey req) (baseline (clock w 0))),
           Message = snd (buildMetricInsight ul (MetricKey req) (baseline (clock w 0))),
           Source = ''metric'', InsightCreatedAt = clock w 1\<rparr>\<rparr> \<and>
     insights (snd (handleCreateInsight ul r w)) =
       insights w @
         [\<lparr>ID = int (length (insights w)) + 1,
           Title = fst (buildMetricInsight ul (MetricKey req) (baseline (clock w 0))),
           Message = snd (buildMetricInsight ul (MetricKey req) (baseline (clock w 0))),
           Source = ''metric'', InsightCreatedAt = dbclock w 0\<rparr>]"
  using assms
  by (simp add: handleCreateInsight_def LatestMetrics_row IsZero_def defaultMetrics_def
      baseline_def InsertInsight_def Let_def case_prod_beta dbCall_def pop_def timeNow_def
      writeJSON_def)

lemma handleCreateInsight_stored:
  assumes "faults w 0 = None" and "orderByCreatedAtDesc (metrics_snapshot w) = m # rest"
    and "CreatedAt m \<noteq> 0" and "faults w 1 = None" and "decoded r = Inr req"
  shows "fst (handleCreateInsight ul r w) =
       \<lparr>status = 200,
        body = InsightData
          \<lparr>ID = int (length (insights w)) + 1,
           Title = fst (buildMetricInsight ul (MetricKey req) m),
           Message = snd (buildMetricInsight ul (MetricKey req) m),
           Source = ''metric'', InsightCreatedAt = clock w 0\<rparr>\<rparr>"
  using assms
  by (simp add: handleCreateInsight_def LatestMetrics_row IsZero_def
      InsertInsight_def Let_def case_prod_beta dbCall_def pop_def timeNow_def writeJSON_def)

text \<open>The consumers on a zero-time latest snapshot against the emptied store.\<close>

lemma consumers_as_emptied:
  assumes "faults w 0 = None" and "orderByCreatedAtDesc (metrics_snapshot w) = m # rest"
    and z: "CreatedAt m = 0"
  shows "handleLatestMetrics r w =
         (fst (handleLatestMetrics r (emptied w)),
          keepingRows w (snd (handleLatestMetrics r (emptied w))))"
    and "handleCreateInsight ul r w =
         (fst (handleCreateInsight ul r (emptied w)),
          keepingRows w (snd (handleCreateInsight ul r (emptied w))))"
    and "handleSimulateMetrics r w =
         (fst (handleSimulateMetrics r (emptied w)),
          keepingRows w (snd (handleSimulateMetrics r (emptied w))))"
    and "metricsTick w = keepingRows w (metricsTick (emptied w))"
    and "insightTick w = keepingRows w (insightTick (emptied w))"
proof -
  from handleLatestMetrics_zero_time [OF assms, of r]
  show "handleLatestMetrics r w =
         (fst (handleLatestMetrics r (emptied w)),
          keepingRows w (snd (handleLatestMetrics r (emptied w))))"
    by (intro prod_eqI) (simp_all add: emptied_def keepingRows_def)
  from handleCreateInsight_zero_time [OF assms, of ul r]
  show "handleCreateInsight ul r w =
         (fst (handleCreateInsight ul r (emptied w)),
          keepingRows w (snd (handleCreateInsight ul r (emptied w))))"
    by (intro prod_eqI) (simp_all add: emptied_def keepingRows_def)
  from handleSimulateMetrics_zero_time [OF assms, of r]
  show "handleSimulateMetrics r w =
         (fst (handleSimulateMetrics r (emptied w)),
          keepingRows w (snd (handleSimulateMetrics r (emptied w))))"
    by (intro prod_eqI) (simp_all add: emptied_def keepingRows_def)
  from metricsTick_zero_time [OF assms]
  show "metricsTick w = keepingRows w (metricsTick (emptied w))"
    by (simp add: emptied_def keepingRows_def)
  from insightTick_zero_time [OF assms]
  show "insightTick w = keepingRows w (insightTick (emptied w))"
    by (simp add: emptied_def keepingRows_def)
qed

lemma handleLatestMetrics_zero_baseline:
  assumes "faults w 0 = None" and "orderByCreatedAtDesc (metrics_snapshot w) = m # rest"
    and "CreatedAt m = 0"
  shows "fst (handleLatestMetrics r w) =
     \<lparr>status = 200, body = MetricsResponse (baseline (clock w 0)) (clock w 1)\<rparr>"
proof -
  have e: "metrics_snapshot (emptied w) = []" "faults (emptied w) 0 = None"
    using assms(1) by (simp_all add: emptied_def)
  have "fst (handleLatestMetrics r w) = fst (handleLatestMetrics r (emptied w))"
    using consumers_as_emptied(1) [OF assms, of r] by simp
  also have "\<dots> = \<lparr>status = 200, body = MetricsResponse (baseline (clock w 0)) (clock w 1)\<rparr>"
    using handleLatestMetrics_empty [OF e, of r] by (simp add: baseline_def emptied_def)
  finally show ?thesis .
qed

text \<open>
  Claim C10. Let the read of \<open>LatestMetrics\<close> be executed and \<open>m\<close> be the latest stored
  snapshot. If \<open>m\<close> has the zero time, every consumer (the latest-metrics,
  create-insight and simulate handlers and both scheduler ticks) does what it does on
  the emptied store: the same response, and the same resulting world but for the old
  rows kept in front of the table. Each of them works on the baseline and not on \<open>m\<close>:
  the latest-metrics handler answers with the baseline; when the insertion is
  executed, the simulate handler answers with, and it and the metrics tick store, the
  simulator's step from the baseline, the insight tick stores the narrative of the
  baseline, and the create-insight handler stores and answers with the insight built
  for the requested key and the baseline. If \<open>m\<close> has any other time, the consumers use
  \<open>m\<close> itself in the same places.
\<close>

theorem zero_createdAt_is_absence:
  assumes "faults w 0 = None" and "orderByCreatedAtDesc (metrics_snapshot w) = m # rest"
  shows "(CreatedAt m = 0 \<longrightarrow>
       fst (handleLatestMetrics r w) =
         \<lparr>status = 200, body = MetricsResponse (baseline (clock w 0)) (clock w 1)\<rparr> \<and>
       handleLatestMetrics r w =
         (fst (handleLatestMetrics r (emptied w)),
          keepingRows w (snd (handleLatestMetrics r (emptied w)))) \<and>
       handleCreateInsight ul r w =
         (fst (handleCreateInsight ul r (emptied w)),
          keepingRows w (snd (handleCreateInsight ul r (emptied w)))) \<and>
       handleSimulateMetrics r w =
         (fst (handleSimulateMetrics r (emptied w)),
          keepingRows w (snd (handleSimulateMetrics r (emptied w)))) \<and>
       metricsTick w = keepingRows w (metricsTick (emptied w)) \<and>
       insightTick w = keepingRows w (insightTick (emptied w)) \<and>
       (faults w 1 = None \<longrightarrow>
          fst (handleSimulateMetrics r w) =
            \<lparr>status = 200,
             body = MetricsData (fst (simulateMetrics (baseline (clock w 0))
                                        (w\<lparr>clock := \<lambda>n. clock w (Suc n)\<rparr>)))\<rparr> \<and>
          metrics_snapshot (snd (handleSimulateMetrics r w)) =
            metrics_snapshot w @
              [fst (simulateMetrics (baseline (clock w 0))
                      (w\<lparr>clock := \<lambda>n. clock w (Suc n)\<rparr>))] \<and>
          metrics_snapshot (metricsTick w) =
            metrics_snapshot w @
              [fst (simulateMetrics (baseline (clock w 0))
                      (w\<lparr>clock := \<lambda>n. clock w (Suc n)\<rparr>))] \<and>
          insights (insightTick w) =
            insights w @
              [\<lparr>ID = int (length (insights w)) + 1, Title = advisorTitle,
                Message = buildAutoInsight (baseline (clock w 0)), Source = ''auto'',
                InsightCreatedAt = dbclock w 0\<rparr>] \<and>
          (decoded r = Inr req \<longrightarrow>
             fst (handleCreateInsight ul r w) =
               \<lparr>status = 200,
                body = InsightData
                  \<lparr>ID = int (length (insights w)) + 1,
                   Title = fst (buildMetricInsight ul (MetricKey req) (baseline (clock w 0))),
                   Message = snd (buildMetricInsight ul (MetricKey req) (baseline (clock w 0))),
                   Source = ''metric'', InsightCreatedAt = clock w 1\<rparr>\<rparr> \<and>
             insights (snd (handleCreateInsight ul r w)) =
               insights w @
                 [\<lparr>ID = int (length (insights w)) + 1,
                   Title = fst (buildMetricInsight ul (MetricKey req) (baseline (clock w 0))),
                   Message = snd (buildMetricInsight ul (MetricKey req) (baseline (clock w 0))),
                   Source = ''metric'', InsightCreatedAt = dbclock w 0\<rparr>]))) \<and>
     (CreatedAt m \<noteq> 0 \<longrightarrow>
       fst (handleLatestMetrics r w) =
         \<lparr>status = 200, body = MetricsResponse m (clock w 0)\<rparr> \<and>
       (faults w 1 = None \<longrightarrow>
          fst (handleSimulateMetrics r w) =
            \<lparr>status = 200, body = MetricsData (fst (simulateMetrics m w))\<rparr> \<and>
          metrics_snapshot (metricsTick w) =
            metrics_snapshot w @ [fst (simulateMetrics m w)] \<and>
          map Message (insights (insightTick w)) =
            map Message (insights w) @ [buildAutoInsight m] \<and>
          (decoded r = Inr req \<longrightarrow>
             fst (handleCreateInsight ul r w) =
               \<lparr>status = 200,
                body = InsightData
                  \<lparr>ID = int (length (insights w)) + 1,
                   Title = fst (buildMetricInsight ul (MetricKey req) m),
                   Message = snd (buildMetricInsight ul (MetricKey req) m),
                   Source = ''metric'', InsightCreatedAt = clock w 0\<rparr>\<rparr>)))"
proof (intro conjI impI)
  assume z: "CreatedAt m = 0"
  show "fst (handleLatestMetrics r w) =
         \<lparr>status = 200, body = MetricsResponse (baseline (clock w 0)) (clock w 1)\<rparr>"
    by (rule handleLatestMetrics_zero_baseline [OF assms z])
  show "handleLatestMetrics r w =
         (fst (handleLatestMetrics r (emptied w)),
          keepingRows w (snd (handleLatestMetrics r (emptied w))))"
    by (rule consumers_as_emptied(1) [OF assms z])
  show "handleCreateInsight ul r w =
         (fst (handleCreateInsight ul r (emptied w)),
          keepingRows w (snd (handleCreateInsight ul r (emptied w))))"
    by (rule consumers_as_emptied(2) [OF assms z])
  show "handleSimulateMetrics r w =
         (fst (handleSimulateMetrics r (emptied w)),
          keepingRows w (snd (handleSimulateMetrics r (emptied w))))"
    by (rule consumers_as_emptied(3) [OF assms z])
  show "metricsTick w = keepingRows w (metricsTick (emptied w))"
    by (rule consumers_as_emptied(4) [OF assms z])
  show "insightTick w = keepingRows w (insightTick (emptied w))"
    by (rule consumers_as_emptied(5) [OF assms z])
  assume f: "faults w 1 = None"
  note sim = handleSimulateMetrics_zero_baseline [OF assms z f, of r]
  from sim show "fst (handleSimulateMetrics r w) =
            \<lparr>status = 200,
             body = MetricsData (fst (simulateMetrics (baseline (clock w 0))
                                        (w\<lparr>clock := \<lambda>n. clock w (Suc n)\<rparr>)))\<rparr>"
    by (rule conjunct1)
  from sim show "metrics_snapshot (snd (handleSimulateMetrics r w)) =
            metrics_snapshot w @
              [fst (simulateMetrics (baseline (clock w 0))
                      (w\<lparr>clock := \<lambda>n. clock w (Suc n)\<rparr>))]"
    by (rule conjunct2)
  show "metrics_snapshot (metricsTick w) =
            metrics_snapshot w @
              [fst (simulateMetrics (baseline (clock w 0))
                      (w\<lparr>clock := \<lambda>n. clock w (Suc n)\<rparr>))]"
    by (rule metricsTick_zero_baseline [OF assms z f])
  show "insights (insightTick w) =
            insights w @
              [\<lparr>ID = int (length (insights w)) + 1, Title = advisorTitle,
                Message = buildAutoInsight (baseline (clock w 0)), Source = ''auto'',
                InsightCreatedAt = dbclock w 0\<rparr>]"
    by (rule insightTick_zero_baseline [OF assms z f])
  assume d: "decoded r = Inr req"
  note cr = handleCreateInsight_zero_baseline [OF assms z f d, of ul]
  from cr show "fst (handleCreateInsight ul r w) =
               \<lparr>status = 200,
                body = InsightData
                  \<lparr>ID = int (length (insights w)) + 1,
                   Title = fst (buildMetricInsight ul (MetricKey req) (baseline (clock w 0))),
                   Message = snd (buildMetricInsight ul (MetricKey req) (baseline (clock w 0))),
                   Source = ''metric'', InsightCreatedAt = clock w 1\<rparr>\<rparr>"
    by (rule conjunct1)
  from cr show "insights (snd (handleCreateInsight ul r w)) =
               insights w @
                 [\<lparr>ID = int (length (insights w)) + 1,
                   Title = fst (buildMetricInsight ul (MetricKey req) (baseline (clock w 0))),
                   Message = snd (buildMetricInsight ul (MetricKey req) (baseline (clock w 0))),
                   Source = ''metric'', InsightCreatedAt = dbclock w 0\<rparr>]"
    by (rule conjunct2)
next
  assume nz: "CreatedAt m \<noteq> 0"
  show "fst (handleLatestMetrics r w) = \<lparr>status = 200, body = MetricsResponse m (clock w 0)\<rparr>"
    by (simp add: handleLatestMetrics_stored [OF assms nz])
  assume f: "faults w 1 = None"
  show "fst (handleSimulateMetrics r w) =
            \<lparr>status = 200, body = MetricsData (fst (simulateMetrics m w))\<rparr>"
    by (rule handleSimulateMetrics_stored [OF assms nz f])
  show "metrics_snapshot (metricsTick w) = metrics_snapshot w @ [fst (simulateMetrics m w)]"
    by (rule metricsTick_stored [OF assms nz f])
  show "map Message (insights (insightTick w)) = map Message (insights w) @ [buildAutoInsight m]"
    by (rule insightTick_stored [OF assms nz f])
  assume d: "decoded r = Inr req"
  show "fst (handleCreateInsight ul r w) =
               \<lparr>status = 200,
                body = InsightData
                  \<lparr>ID = int (length (insights w)) + 1,
                   Title = fst (buildMetricInsight ul (MetricKey req) m),
                   Message = snd (buildMetricInsight ul (MetricKey req) m),
                   Source = ''metric'', InsightCreatedAt = clock w 0\<rparr>\<rparr>"
    by (rule handleCreateInsight_stored [OF assms nz f d])
qed

theorem zero_createdAt_is_absence_witness:
  "fst (handleLatestMetrics plainRequest (storedWorld [snapshotAt 0])) =
     \<lparr>status = 200, body = MetricsResponse (baseline 1000) 1000\<rparr> \<and>
   fst (handleLatestMetrics plainRequest (storedWorld [snapshotAt 0])) =
     fst (handleLatestMetrics plainRequest emptyWorld) \<and>
   fst (handleSimulateMetrics plainRequest (storedWorld [snapshotAt 0])) =
     \<lparr>status = 200,
      body = MetricsData \<lparr>Revenue = 4.838, Growth = 18.68, Sentiment = 72, Backlog = 128,
                          CreatedAt = 1000\<rparr>\<rparr> \<and>
   metrics_snapshot (metricsTick (storedWorld [snapshotAt 0])) =
     [snapshotAt 0,
      \<lparr>Revenue = 4.838, Growth = 18.68, Sentiment = 72, Backlog = 128, CreatedAt = 1000\<rparr>] \<and>
   insights (insightTick (storedWorld [snapshotAt 0])) =
     [\<lparr>ID = 1, Title = advisorTitle,
       Message = sentenceDemand @ wordSteady @ sentenceSentiment @ wordStable @
                 sentenceBacklog @ wordManageable @ sentenceAdvice,
       Source = ''auto'', InsightCreatedAt = 1000\<rparr>] \<and>
   fst (handleCreateInsight (\<lambda>s. s) (insightRequest ''BACKLOG'') (storedWorld [snapshotAt 0])) =
     \<lparr>status = 200,
      body = InsightData \<lparr>ID = 1, Title = backlogTitle, Message = backlogMessage,
                          Source = ''metric'', InsightCreatedAt = 1000\<rparr>\<rparr> \<and>
   fst (handleLatestMetrics plainRequest (storedWorld [snapshotAt 500])) =
     \<lparr>status = 200, body = MetricsResponse (snapshotAt 500) 1000\<rparr> \<and>
   fst (handleSimulateMetrics plainRequest (storedWorld [snapshotAt 500])) =
     \<lparr>status = 200,
      body = MetricsData \<lparr>Revenue = 5.018, Growth = 20.08, Sentiment = 80, Backlog = 100,
                          CreatedAt = 1000\<rparr>\<rparr> \<and>
   map Message (insights (insightTick (storedWorld [snapshotAt 500]))) =
     [sentenceDemand @ wordSteady @ sentenceSentiment @ wordStrong @
      sentenceBacklog @ wordLow @ sentenceAdvice]"
proof -
  have f: "faults (storedWorld rows) n = None" for rows n
    by (simp add: storedWorld_def emptyWorld_def always_def)
  have o: "orderByCreatedAtDesc (metrics_snapshot (storedWorld [snapshotAt t])) =
      snapshotAt t # []" for t
    by (simp add: storedWorld_def orderByCreatedAtDesc_def)
  have e: "emptied (storedWorld rows) = emptyWorld" for rows
    by (simp add: emptied_def storedWorld_def emptyWorld_def)
  have t: "CreatedAt (snapshotAt t) = t" for t
    by (simp add: snapshotAt_def)
  have d: "decoded (insightRequest ''BACKLOG'') = Inr \<lparr>MetricKey = ''BACKLOG''\<rparr>"
    by (simp add: insightRequest_def)
  have nz: "(500::time) \<noteq> 0" by simp
  note zero = zero_createdAt_is_absence [OF f o, of 0 plainRequest "\<lambda>s. s" "\<lparr>MetricKey = []\<rparr>",
      unfolded t, THEN conjunct1, THEN mp, OF refl]
  note zeroKey = zero_createdAt_is_absence
      [OF f o, of 0 "insightRequest ''BACKLOG''" "\<lambda>s. s" "\<lparr>MetricKey = ''BACKLOG''\<rparr>",
      unfolded t, THEN conjunct1, THEN mp, OF refl]
  note later = zero_createdAt_is_absence [OF f o, of 500 plainRequest "\<lambda>s. s" "\<lparr>MetricKey = []\<rparr>",
      unfolded t, THEN conjunct2, THEN mp, OF nz]
  note zeroF = zero [THEN conjunct2, THEN conjunct2, THEN conjunct2, THEN conjunct2,
      THEN conjunct2, THEN conjunct2, THEN mp, OF f]
  note zeroKeyF = zeroKey [THEN conjunct2, THEN conjunct2, THEN conjunct2, THEN conjunct2,
      THEN conjunct2, THEN conjunct2, THEN mp, OF f]
  note laterF = later [THEN conjunct2, THEN mp, OF f]
  have w:"clock (storedWorld rows) n = 1000" "dbclock (storedWorld rows) n = 1000"
    "rng (storedWorld rows) n = 1 / 2" "insights (storedWorld rows) = []"
    "metrics_snapshot (storedWorld rows) = rows" for rows n
    by (simp_all add: storedWorld_def emptyWorld_def always_def)
  have c1: "fst (handleLatestMetrics plainRequest (storedWorld [snapshotAt 0])) =
      \<lparr>status = 200, body = MetricsResponse (baseline 1000) 1000\<rparr>"
    using zero [THEN conjunct1] by (simp add: w)
  have "handleLatestMetrics plainRequest (storedWorld [snapshotAt 0]) =
      (fst (handleLatestMetrics plainRequest emptyWorld),
       keepingRows (storedWorld [snapshotAt 0]) (snd (handleLatestMetrics plainRequest emptyWorld)))"
    using zero [THEN conjunct2, THEN conjunct1] by (simp only: e)
  then have c2: "fst (handleLatestMetrics plainRequest (storedWorld [snapshotAt 0])) =
      fst (handleLatestMetrics plainRequest emptyWorld)"
    by simp
  have c3: "fst (handleSimulateMetrics plainRequest (storedWorld [snapshotAt 0])) =
      \<lparr>status = 200,
       body = MetricsData \<lparr>Revenue = 4.838, Growth = 18.68, Sentiment = 72, Backlog = 128,
                           CreatedAt = 1000\<rparr>\<rparr>"
    using zeroF [THEN conjunct1]
    by (simp add: w simulateMetrics_fields baseline_def clamp_def toInt_def)
  have c4: "metrics_snapshot (metricsTick (storedWorld [snapshotAt 0])) =
      [snapshotAt 0,
       \<lparr>Revenue = 4.838, Growth = 18.68, Sentiment = 72, Backlog = 128, CreatedAt = 1000\<rparr>]"
    using zeroF [THEN conjunct2, THEN conjunct2, THEN conjunct1]
    by (simp add: w simulateMetrics_fields baseline_def clamp_def toInt_def)
  have c5: "insights (insightTick (storedWorld [snapshotAt 0])) =
      [\<lparr>ID = 1, Title = advisorTitle,
        Message = sentenceDemand @ wordSteady @ sentenceSentiment @ wordStable @
                  sentenceBacklog @ wordManageable @ sentenceAdvice,
        Source = ''auto'', InsightCreatedAt = 1000\<rparr>]"
    using zeroF [THEN conjunct2, THEN conjunct2, THEN conjunct2, THEN conjunct1]
    by (simp add: w buildAutoInsight_def baseline_def)
  have k: "buildMetricInsight (\<lambda>s. s) ''BACKLOG'' x = (backlogTitle, backlogMessage)" for x
    by (simp add: buildMetricInsight_def ToLower_def isASCII_def lowerByte_def isUpperByte_def
        char_of_def bit_0)
  have c6: "fst (handleCreateInsight (\<lambda>s. s) (insightRequest ''BACKLOG'')
        (storedWorld [snapshotAt 0])) =
      \<lparr>status = 200,
       body = InsightData \<lparr>ID = 1, Title = backlogTitle, Message = backlogMessage,
                           Source = ''metric'', InsightCreatedAt = 1000\<rparr>\<rparr>"
    using zeroKeyF [THEN conjunct2, THEN conjunct2, THEN conjunct2, THEN conjunct2,
        THEN mp, OF d, THEN conjunct1]
    by (simp add: w k)
  have c7: "fst (handleLatestMetrics plainRequest (storedWorld [snapshotAt 500])) =
      \<lparr>status = 200, body = MetricsResponse (snapshotAt 500) 1000\<rparr>"
    using later [THEN conjunct1] by (simp add: w)
  have c8: "fst (handleSimulateMetrics plainRequest (storedWorld [snapshotAt 500])) =
      \<lparr>status = 200,
       body = MetricsData \<lparr>Revenue = 5.018, Growth = 20.08, Sentiment = 80, Backlog = 100,
                           CreatedAt = 1000\<rparr>\<rparr>"
    using laterF [THEN conjunct1]
    by (simp add: w simulateMetrics_fields snapshotAt_def clamp_def toInt_def)
  have c9: "map Message (insights (insightTick (storedWorld [snapshotAt 500]))) =
      [sentenceDemand @ wordSteady @ sentenceSentiment @ wordStrong @
       sentenceBacklog @ wordLow @ sentenceAdvice]"
    using laterF [THEN conjunct2, THEN conjunct2, THEN conjunct1]
    by (simp add: w buildAutoInsight_def snapshotAt_def)
  from c1 c2 c3 c4 c5 c6 c7 c8 c9 show ?thesis by (intro conjI)
qed

end
